theory Spec2Isabelle
  imports Complex_Main "HOL-Library.Multiset"
begin

section \<open>MoveToMapPokemon: a model of \<^verbatim>\<open>pokemongo_bot/cell_workers/move_to_map_pokemon.py\<close>\<close>

text \<open>
  The class \<^verbatim>\<open>MoveToMapPokemon\<close> picks a creature from a map feed, walks or teleports
  ("snipes") to it, and keeps a bounded ledger of the places it has already dealt with. The
  model follows the Python source function by function. The mutable state of the object and
  of the bot is a record that every function takes and returns; a Python exception is the
  \<open>Inl\<close> branch of a sum; the calls to services that live outside the source file
  (position, walker, capture, inventory, HTTP, clock) are readings of a \<open>world\<close> record,
  and each call leaves an entry in a trace. Dicts are records of the keys the source reads
  and writes, with the types the feeds give them; timestamps are integers.
\<close>

subsection \<open>Numbers and \<^verbatim>\<open>"{0:.4f}".format\<close>\<close>

text \<open>
  A latitude, a longitude or a distance is a finite Python float. A float that the source
  only computes and compares with (a distance, the trainer's position, the place of a fort)
  is modelled by its exact value, a rational number. The latitude and the longitude of a
  sighting are also printed, and the printed text tells the negative zero from zero; such a
  float is its exact value (\<open>Exact 0\<close> is \<^verbatim>\<open>0.0\<close>) or the negative zero \<^verbatim>\<open>-0.0\<close>. \<open>fval\<close> is
  its value as a number, \<open>signbit\<close> its sign bit.

  \<^verbatim>\<open>"{0:.4f}".format(x)\<close> prints the exact value rounded to four decimals, ties to the even
  neighbour, with a leading minus sign whenever the sign bit of \<open>x\<close> is set (so \<^verbatim>\<open>-0.00001\<close>
  and \<^verbatim>\<open>-0.0\<close> both print as \<^verbatim>\<open>-0.0000\<close>).
\<close>

datatype pyfloat = Exact rat | Minus_zero

fun fval :: "pyfloat \<Rightarrow> rat" where
  "fval (Exact x) = x"
| "fval Minus_zero = 0"

fun signbit :: "pyfloat \<Rightarrow> bool" where
  "signbit (Exact x) = (x < 0)"
| "signbit Minus_zero = True"

definition round_half_even :: "rat \<Rightarrow> int" where
  "round_half_even q =
     (let f = \<lfloor>q\<rfloor>; r = q - of_int f
      in if r < 1 / 2 then f else if 1 / 2 < r then f + 1 else if even f then f else f + 1)"

definition digit_char :: "nat \<Rightarrow> char" where
  "digit_char d = ''0123456789'' ! d"

function str_nat :: "nat \<Rightarrow> string" where
  "str_nat n = (if n < 10 then [digit_char n] else str_nat (n div 10) @ [digit_char (n mod 10)])"
  by pat_completeness auto
termination
  by (relation "measure id") auto

declare str_nat.simps [simp del]

definition fmt4 :: "pyfloat \<Rightarrow> string" where
  "fmt4 x =
     (let n = nat (round_half_even (\<bar>fval x\<bar> * 10000))
      in (if signbit x then ''-'' else '''') @ str_nat (n div 10000) @ ''.'' @
         [digit_char (n div 1000 mod 10), digit_char (n div 100 mod 10),
          digit_char (n div 10 mod 10), digit_char (n mod 10)])"

text \<open>What the printed text depends on: the sign and the rounded count of ten-thousandths.\<close>

definition key4 :: "pyfloat \<Rightarrow> bool \<times> int" where
  "key4 x = (signbit x, round_half_even (\<bar>fval x\<bar> * 10000))"

text \<open>
  The words of the specification, for comparison with the printed text: a coordinate
  "rounded to 4 decimal places" is a number, the multiple of \<open>1 / 10000\<close> nearest to the value
  (ties to even, as \<^verbatim>\<open>format\<close> rounds). As a number it does not tell \<^verbatim>\<open>-0.0\<close> from \<^verbatim>\<open>0.0\<close>, nor
  a negative coordinate that rounds to zero from a positive one.
\<close>

definition rounded4 :: "pyfloat \<Rightarrow> rat" where
  "rounded4 x = of_int (round_half_even (fval x * 10000)) / 10000"

subsection \<open>Data\<close>

datatype py_error = KeyError | IndexError | AttributeError

text \<open>
  An identifier as the feeds carry it: nothing (\<^verbatim>\<open>None\<close> or the empty string), a number or
  a string. \<open>truthy\<close> is Python's truth value of it.
\<close>

datatype ident = Blank | Num int | Str string

fun truthy :: "ident \<Rightarrow> bool" where
  "truthy Blank = False"
| "truthy (Num n) = (n \<noteq> 0)"
| "truthy (Str s) = (s \<noteq> [])"

text \<open>
  The dict of one sighting once the filter has filled it in; also the shape of a ledger
  entry. \<open>spawnpoint_id\<close> is the pull feed's own key (\<open>None\<close>: the dict has no such key, as
  in push mode), \<open>spawn_point_id\<close> the key the source writes. \<open>iv\<close> is \<open>None\<close> where the dict
  has no such key.
\<close>

record pokemon =
  pokemon_id :: int
  latitude :: pyfloat
  longitude :: pyfloat
  encounter_id :: ident
  spawn_point_id :: ident
  spawnpoint_id :: "ident option"
  disappear_time :: int
  name :: string
  is_vip :: bool
  priority :: int
  dist :: rat
  iv :: "rat option"

subsection \<open>Events, external calls and the state\<close>

text \<open>
  The text of a log line is a constructor with the values the format string receives.
\<close>

datatype message =
    Not_catching string
  | Catching string
  | Could_not_get_data string
  | Json_not_valid
  | Error_parsing
  | Skipped_not_in_catch string
  | Skipped_inspected string
  | Skipped_sniping_distance string rat
  | Skipped_walking_distance string rat
  | Skipped_unreachable string
  | Doesnt_exist string
  | Not_enough_balls int int
  | Skipping_pass int
  | No_pokemons
  | How_many nat
  | Not_good_enough pokemon

text \<open>
  One constructor per event name of the module docstring; the pokemon events carry the
  dict that \<^verbatim>\<open>_pokemon_event_data\<close> formats.
\<close>

datatype event =
    Ev_fail message
  | Ev_log message
  | Ev_teleport_to pokemon
  | Ev_encounter pokemon
  | Ev_move_towards pokemon
  | Ev_teleport_back rat rat
  | Ev_through_fort string rat pokemon
  | Ev_arrived_at_fort

text \<open>
  What leaves the object, in the order it happens. \<open>Walker_step n lat lon\<close> is one
  \<^verbatim>\<open>step()\<close> of a walker of strategy \<open>n\<close> that left the trainer at \<open>(lat, lon)\<close>.
\<close>

datatype effect =
    Emit event
  | Sleep rat
  | Heartbeat
  | Set_position rat rat rat bool
  | Http_get string
  | Get_meta_cell
  | Create_encounter pokemon
  | Catch_work pokemon
  | Fort_details string rat rat
  | Walker_step string rat rat

datatype worker_result = SUCCESS | RUNNING

text \<open>A raw sighting of the push buffer (\<^verbatim>\<open>bot.mqtt_pokemon_list\<close>).\<close>

record social_sighting =
  s_pokemon_id :: int
  s_latitude :: pyfloat
  s_longitude :: pyfloat
  s_encounter_id :: ident
  s_spawn_point_id :: ident
  s_expiration_timestamp_ms :: int

text \<open>
  A raw sighting of the pull feed. The keys the wire format calls optional are absent,
  \<^verbatim>\<open>null\<close> or present.
\<close>

datatype 'a json_key = Absent | Null | Val 'a

record url_sighting =
  u_pokemon_id :: int
  u_latitude :: pyfloat
  u_longitude :: pyfloat
  u_disappear_time :: int
  u_encounter_id :: "string json_key"
  u_spawnpoint_id :: "string json_key"
  u_iv :: "rat option"

text \<open>
  The reply to \<^verbatim>\<open>requests.get(address).json()\<close>: the two exceptions the source catches, or
  a JSON object whose \<^verbatim>\<open>pokemons\<close> key may be missing.
\<close>

datatype http_reply = ConnectionError | ValueError | Json "url_sighting list option"

text \<open>
  A creature of the local surroundings, with its species id, encounter id, spawn point id
  and timestamp: a wild one (\<^verbatim>\<open>'pokemon_data' in nearby_pokemon\<close>) carries the species id
  under \<^verbatim>\<open>pokemon_data\<close> and the timestamp \<^verbatim>\<open>last_modified_timestamp_ms\<close>, a catchable
  one carries \<^verbatim>\<open>pokemon_id\<close> and \<^verbatim>\<open>expiration_timestamp_ms\<close>. The four functions below
  read the field that the source reads for the kind at hand.
\<close>

datatype nearby_pokemon =
    Wild int ident ident int
  | Catchable int ident ident int

fun nearby_pokemon_id :: "nearby_pokemon \<Rightarrow> int" where
  "nearby_pokemon_id (Wild i e s t) = i"
| "nearby_pokemon_id (Catchable i e s t) = i"

fun nearby_encounter_id :: "nearby_pokemon \<Rightarrow> ident" where
  "nearby_encounter_id (Wild i e s t) = e"
| "nearby_encounter_id (Catchable i e s t) = e"

fun nearby_spawn_point_id :: "nearby_pokemon \<Rightarrow> ident" where
  "nearby_spawn_point_id (Wild i e s t) = s"
| "nearby_spawn_point_id (Catchable i e s t) = s"

fun nearby_timestamp_ms :: "nearby_pokemon \<Rightarrow> int" where
  "nearby_timestamp_ms (Wild i e s t) = t"
| "nearby_timestamp_ms (Catchable i e s t) = t"

record cell =
  wild_pokemons :: "nearby_pokemon list option"
  catchable_pokemons :: "nearby_pokemon list option"

record fort =
  f_id :: string
  f_latitude :: rat
  f_longitude :: rat

text \<open>
  A walker object, seen through the one call the source makes: what \<^verbatim>\<open>step()\<close> returns
  and where it leaves the trainer.
\<close>

record walker_obj =
  step :: bool
  moved_to :: "rat \<times> rat \<times> rat"

text \<open>
  \<^verbatim>\<open>self.config\<close>, the object's own dict. A key the source reads with \<^verbatim>\<open>.get(key, default)\<close>
  somewhere may be missing (\<open>None\<close>); a key it only ever indexes is a plain field. The key
  \<^verbatim>\<open>snipe\<close> is the field \<open>cfg_snipe\<close>, and the keys that \<^verbatim>\<open>initialize\<close> copies into
  attributes of the same name carry the prefix too.
\<close>

record config =
  catch :: "string \<rightharpoonup> int"
  mode :: string
  prioritize_vips :: bool
  address :: string
  debug :: "bool option"
  cfg_snipe :: "bool option"
  max_sniping_distance :: "rat option"
  max_walking_distance :: "rat option"
  skip_rounds :: "int option"
  snipe_max_in_chain :: "int option"
  snipe_sleep_sec :: "rat option"
  max_extra_dist_fort :: "rat option"
  cfg_min_ball :: "int option"
  cfg_walker :: "string option"
  cfg_snipe_high_prio_only :: "bool option"
  cfg_snipe_high_prio_threshold :: "int option"

text \<open>
  What the object reads of the bot and of the modules it imports and never writes:
  \<^verbatim>\<open>bot.config\<close>, the species table, \<^verbatim>\<open>_base_dir\<close>, the two reach constants of
  \<^verbatim>\<open>Constants\<close>, the \<^verbatim>\<open>distance\<close> helper and \<^verbatim>\<open>long(base64.b64decode(s))\<close> (\<open>None\<close>
  where it raises). None of these is defined in this file, so they are parameters.
\<close>

record bot =
  vips :: "string list"
  walk_min :: rat
  walk_max :: rat
  enable_social :: bool
  username :: string
  alt_min :: rat
  alt_max :: rat
  bot_pokemon_list :: "string list"
  base_dir :: string
  MAX_DISTANCE_POKEMON_IS_REACHABLE :: rat
  MAX_DISTANCE_FORT_IS_REACHABLE :: rat
  distance :: "rat \<Rightarrow> rat \<Rightarrow> rat \<Rightarrow> rat \<Rightarrow> rat"
  b64_long :: "string \<Rightarrow> int option"

text \<open>
  What the outside answers during one tick: the clock, the inventory counts by item id,
  the HTTP reply, the surroundings seen from a position, the forts and their timeouts,
  the walker built for a strategy and a destination, the name in a fort's details, and
  the draw of \<^verbatim>\<open>random.uniform\<close>.
\<close>

record world =
  time_now :: int
  item_count :: "int \<Rightarrow> int"
  http_get :: "string \<Rightarrow> http_reply"
  get_meta_cell :: "rat \<Rightarrow> rat \<Rightarrow> cell"
  get_forts :: "fort list"
  fort_timeouts :: "string list"
  walker_factory :: "string \<Rightarrow> rat \<Rightarrow> rat \<Rightarrow> walker_obj option"
  fort_details :: "string \<Rightarrow> string option"
  uniform :: "rat \<Rightarrow> rat \<Rightarrow> rat"

text \<open>
  The mutable state: the attributes of \<^verbatim>\<open>self\<close> and the attributes of the bot that the
  source writes. \<open>position\<close> is \<^verbatim>\<open>bot.position\<close>; \<open>capture_locked\<close> is \<open>None\<close> for \<^verbatim>\<open>False\<close>;
  \<open>mqtt_pokemon_list\<close> is \<open>None\<close> where the bot has no such attribute; \<open>files\<close> maps a path
  (its components) to the ledger a JSON file holds.
\<close>

record task =
  caught :: "pokemon list"
  min_ball :: int
  walker :: string
  snipe_high_prio_only :: bool
  snipe_high_prio_threshold :: int
  by_pass_times :: int
  pokemon_data :: "string list"
  alt :: rat
  position :: "rat \<times> rat \<times> rat"
  capture_locked :: "int option"
  mqtt_pokemon_list :: "social_sighting list option"
  files :: "string list \<rightharpoonup> pokemon list"
  trace :: "effect list"

definition ULTRABALL_ID :: int where "ULTRABALL_ID = 3"
definition GREATBALL_ID :: int where "GREATBALL_ID = 2"
definition POKEBALL_ID :: int where "POKEBALL_ID = 1"

subsection \<open>Python idioms\<close>

text \<open>\<^verbatim>\<open>d.get(key, default)\<close> and \<^verbatim>\<open>d[key]\<close> on a key that may be missing.\<close>

definition get_or :: "'a option \<Rightarrow> 'a \<Rightarrow> 'a" where
  "get_or v d = (case v of None \<Rightarrow> d | Some x \<Rightarrow> x)"

definition index_key :: "'a option \<Rightarrow> py_error + 'a" where
  "index_key v = (case v of None \<Rightarrow> Inl KeyError | Some x \<Rightarrow> Inr x)"

text \<open>\<^verbatim>\<open>a and b\<close>, where reading \<open>b\<close> may raise: \<open>b\<close> is read only if \<open>a\<close> holds.\<close>

definition and_then :: "bool \<Rightarrow> (py_error + bool) \<Rightarrow> py_error + bool" where
  "and_then a b = (if a then b else Inr False)"

text \<open>\<^verbatim>\<open>xs[i]\<close>: a negative index counts from the end, anything out of range raises.\<close>

definition py_index :: "'a list \<Rightarrow> int \<Rightarrow> py_error + 'a" where
  "py_index xs i =
     (let j = (if i < 0 then i + int (length xs) else i)
      in if 0 \<le> j \<and> j < int (length xs) then Inr (xs ! nat j) else Inl IndexError)"

text \<open>
  \<^verbatim>\<open>xs.sort(key=f, reverse=True)\<close>: keys in descending order, elements with equal keys
  in their original order (the sort stays stable under \<^verbatim>\<open>reverse\<close>).
\<close>

fun insort_reverse :: "('a \<Rightarrow> 'k::linorder) \<Rightarrow> 'a \<Rightarrow> 'a list \<Rightarrow> 'a list" where
  "insort_reverse f x [] = [x]"
| "insort_reverse f x (y # ys) =
     (if f y \<le> f x then x # y # ys else y # insort_reverse f x ys)"

definition sort_reverse :: "('a \<Rightarrow> 'k::linorder) \<Rightarrow> 'a list \<Rightarrow> 'a list" where
  "sort_reverse f xs = foldr (insort_reverse f) xs []"

definition pos0 :: "rat \<times> rat \<times> rat \<Rightarrow> rat" where
  "pos0 p = fst p"

definition pos1 :: "rat \<times> rat \<times> rat \<Rightarrow> rat" where
  "pos1 p = fst (snd p)"

definition effect :: "effect \<Rightarrow> task \<Rightarrow> task" where
  "effect e st = st\<lparr>trace := trace st @ [e]\<rparr>"

definition emit_event :: "event \<Rightarrow> task \<Rightarrow> task" where
  "emit_event ev st = effect (Emit ev) st"

text \<open>\<^verbatim>\<open>if self.config.get('debug', False): self._emit_log(...)\<close>.\<close>

definition debug_log :: "config \<Rightarrow> message \<Rightarrow> task \<Rightarrow> task" where
  "debug_log cfg m st = (if get_or (debug cfg) False then emit_event (Ev_log m) st else st)"

definition debug_events :: "config \<Rightarrow> event \<Rightarrow> event list" where
  "debug_events cfg ev = (if get_or (debug cfg) False then [ev] else [])"

text \<open>
  Modelled from the spec: the Position/Movement service of section 6
  (\<^verbatim>\<open>bot.api.set_position\<close>, read back as \<^verbatim>\<open>bot.position\<close>) is not in this file.
  \<^verbatim>\<open>setPosition(lat, lon, alt, immediate)\<close> makes \<open>(lat, lon, alt)\<close> the current position.
\<close>

definition set_position :: "rat \<Rightarrow> rat \<Rightarrow> rat \<Rightarrow> bool \<Rightarrow> task \<Rightarrow> task" where
  "set_position lat lon al teleporting st =
     effect (Set_position lat lon al teleporting) (st\<lparr>position := (lat, lon, al)\<rparr>)"


subsection \<open>The Dedup Ledger: \<^verbatim>\<open>is_inspected\<close> and \<^verbatim>\<open>inspect\<close>\<close>

text \<open>The comparison of lines 233 and 241: both printed coordinates agree.\<close>

definition same_spot :: "pokemon \<Rightarrow> pokemon \<Rightarrow> bool" where
  "same_spot p c \<longleftrightarrow>
     fmt4 (latitude p) = fmt4 (latitude c) \<and> fmt4 (longitude p) = fmt4 (longitude c)"

fun is_inspected :: "pokemon list \<Rightarrow> pokemon \<Rightarrow> bool" where
  "is_inspected [] p = False"
| "is_inspected (c # cs) p = (if same_spot p c then True else is_inspected cs p)"

text \<open>
  \<^verbatim>\<open>inspect\<close> runs the same loop as \<^verbatim>\<open>is_inspected\<close> and returns at the first match;
  otherwise it drops the head once the list holds 200 entries (\<^verbatim>\<open>pop(0)\<close>) and appends.
\<close>

definition inspect :: "pokemon list \<Rightarrow> pokemon \<Rightarrow> pokemon list" where
  "inspect cs p =
     (if is_inspected cs p then cs
      else (if length cs \<ge> 200 then tl cs else cs) @ [p])"

subsection \<open>The Candidate Filter\<close>

text \<open>
  One pass of a \<^verbatim>\<open>for\<close> loop over a feed: \<open>item\<close> is the loop body, which either raises,
  or ends in \<^verbatim>\<open>continue\<close> (\<open>None\<close>) or in \<^verbatim>\<open>pokemon_list.append(pokemon)\<close> (\<open>Some\<close>), and in
  both cases may have emitted events. The kept sightings come out in feed order.
\<close>

fun feed_loop ::
  "('s \<Rightarrow> py_error + (event list \<times> pokemon option)) \<Rightarrow> 's list \<Rightarrow>
     py_error + (event list \<times> pokemon list)" where
  "feed_loop item [] = Inr ([], [])"
| "feed_loop item (s # ss) =
     (case item s of
        Inl e \<Rightarrow> Inl e
      | Inr (ev, r) \<Rightarrow>
          (case feed_loop item ss of
             Inl e \<Rightarrow> Inl e
           | Inr (evs, out) \<Rightarrow>
               Inr (ev @ evs, (case r of None \<Rightarrow> out | Some p \<Rightarrow> p # out))))"

text \<open>\<^verbatim>\<open>not self.config['snipe']\<close>, which raises where the key is missing.\<close>

definition not_key :: "bool option \<Rightarrow> py_error + bool" where
  "not_key v = (case v of None \<Rightarrow> Inl KeyError | Some x \<Rightarrow> Inr (\<not> x))"

text \<open>
  The body of the loop of \<^verbatim>\<open>get_pokemon_from_social\<close> (lines 113-151). \<open>cs\<close> is
  \<^verbatim>\<open>self.caught\<close>, \<open>pos\<close> is \<^verbatim>\<open>self.bot.position\<close>, \<open>names\<close> is \<^verbatim>\<open>self.pokemon_data\<close>. The
  dict is built with \<open>priority\<close> and \<open>dist\<close> at 0 until lines 130 and 132 write them;
  nothing reads them before.
\<close>

definition social_item ::
  "config \<Rightarrow> bot \<Rightarrow> pokemon list \<Rightarrow> rat \<times> rat \<times> rat \<Rightarrow> int \<Rightarrow> string list \<Rightarrow>
     social_sighting \<Rightarrow> py_error + (event list \<times> pokemon option)" where
  "social_item cfg b cs pos now names s =
     (case py_index names (s_pokemon_id s - 1) of
        Inl e \<Rightarrow> Inl e
      | Inr nm \<Rightarrow>
          let p = \<lparr>pokemon_id = s_pokemon_id s, latitude = s_latitude s,
                   longitude = s_longitude s, encounter_id = s_encounter_id s,
                   spawn_point_id = s_spawn_point_id s, spawnpoint_id = None,
                   disappear_time = s_expiration_timestamp_ms s div 1000, name = nm,
                   is_vip = (nm \<in> set (vips b)), priority = 0, dist = 0, iv = None\<rparr>
          in if catch cfg (name p) = None
             then Inr (debug_events cfg (Ev_fail (Not_catching (name p))), None)
             else
               let ev = debug_events cfg (Ev_log (Catching (name p)))
               in if is_inspected cs p then Inr (ev, None)
                  else
                    let p = p\<lparr>priority := get_or (catch cfg (name p)) 0\<rparr>;
                        p = p\<lparr>dist := distance b (pos0 pos) (pos1 pos)
                                         (fval (latitude p)) (fval (longitude p))\<rparr>
                    in if dist p > get_or (max_sniping_distance cfg) 10000 then Inr (ev, None)
                       else if dist p > get_or (max_walking_distance cfg) 1000 \<and>
                               \<not> get_or (cfg_snipe cfg) False
                       then Inr (ev, None)
                       else
                         let mean_walk_speed = (walk_max b + walk_min b) / 2
                         in (case and_then
                                    (dist p > of_int (disappear_time p - now) * mean_walk_speed)
                                    (not_key (cfg_snipe cfg)) of
                               Inl e \<Rightarrow> Inl e
                             | Inr True \<Rightarrow> Inr (ev, None)
                             | Inr False \<Rightarrow> Inr (ev, Some p)))"

text \<open>
  \<^verbatim>\<open>get_pokemon_from_social\<close>: nothing to do without a non-empty buffer; otherwise the
  buffer is taken and cleared, and the loop runs over what was taken.
\<close>

definition get_pokemon_from_social ::
  "config \<Rightarrow> bot \<Rightarrow> world \<Rightarrow> task \<Rightarrow> py_error + (pokemon list \<times> task)" where
  "get_pokemon_from_social cfg b w st =
     (case mqtt_pokemon_list st of
        None \<Rightarrow> Inr ([], st)
      | Some tmp_pokemon_list \<Rightarrow>
          if tmp_pokemon_list = [] then Inr ([], st)
          else
            (case feed_loop
                    (social_item cfg b (caught st) (position st) (time_now w) (pokemon_data st))
                    tmp_pokemon_list of
               Inl e \<Rightarrow> Inl e
             | Inr (evs, pokemon_list) \<Rightarrow>
                 Inr (pokemon_list,
                      st\<lparr>mqtt_pokemon_list := Some [], trace := trace st @ map Emit evs\<rparr>)))"

text \<open>
  The \<^verbatim>\<open>try\<close> block of \<^verbatim>\<open>get_pokemon_from_url\<close> (lines 171-183); \<open>None\<close> is the bare
  \<^verbatim>\<open>except\<close>. A missing \<^verbatim>\<open>encounter_id\<close> or \<^verbatim>\<open>spawnpoint_id\<close> key, a string that
  \<^verbatim>\<open>long(base64.b64decode(...))\<close> rejects and a species index out of range all end there.
\<close>

definition parse_encounter_id :: "bot \<Rightarrow> string json_key \<Rightarrow> ident option" where
  "parse_encounter_id b k =
     (case k of
        Absent \<Rightarrow> None
      | Null \<Rightarrow> Some Blank
      | Val v \<Rightarrow> if v = [] then Some Blank else map_option Num (b64_long b v))"

definition raw_ident :: "string json_key \<Rightarrow> ident option" where
  "raw_ident k = (case k of Absent \<Rightarrow> None | Null \<Rightarrow> Some Blank | Val v \<Rightarrow> Some (Str v))"

definition parse_url :: "bot \<Rightarrow> string list \<Rightarrow> url_sighting \<Rightarrow> pokemon option" where
  "parse_url b names u =
     (case parse_encounter_id b (u_encounter_id u) of
        None \<Rightarrow> None
      | Some enc \<Rightarrow>
          (case raw_ident (u_spawnpoint_id u) of
             None \<Rightarrow> None
           | Some raw \<Rightarrow>
               (case py_index names (u_pokemon_id u - 1) of
                  Inl e \<Rightarrow> None
                | Inr nm \<Rightarrow>
                    Some \<lparr>pokemon_id = u_pokemon_id u, latitude = u_latitude u,
                          longitude = u_longitude u, encounter_id = enc,
                          spawn_point_id = (if truthy raw then raw else Blank),
                          spawnpoint_id = Some raw,
                          disappear_time = u_disappear_time u div 1000, name = nm,
                          is_vip = (nm \<in> set (vips b)), priority = 0, dist = 0,
                          iv = Some (get_or (u_iv u) 0)\<rparr>)))"

text \<open>The body of the loop of \<^verbatim>\<open>get_pokemon_from_url\<close> (lines 171-226).\<close>

definition url_item ::
  "config \<Rightarrow> bot \<Rightarrow> pokemon list \<Rightarrow> rat \<times> rat \<times> rat \<Rightarrow> int \<Rightarrow> string list \<Rightarrow>
     url_sighting \<Rightarrow> py_error + (event list \<times> pokemon option)" where
  "url_item cfg b cs pos now names u =
     (case parse_url b names u of
        None \<Rightarrow> Inr ([Ev_fail Error_parsing], None)
      | Some p \<Rightarrow>
          if catch cfg (name p) = None \<and> \<not> is_vip p
          then Inr (debug_events cfg (Ev_log (Skipped_not_in_catch (name p))), None)
          else if is_inspected cs p
          then Inr (debug_events cfg (Ev_log (Skipped_inspected (name p))), None)
          else
            let p = p\<lparr>priority := get_or (catch cfg (name p)) 0\<rparr>;
                p = p\<lparr>dist := distance b (pos0 pos) (pos1 pos)
                                 (fval (latitude p)) (fval (longitude p))\<rparr>
            in (case index_key (max_sniping_distance cfg) of
                  Inl e \<Rightarrow> Inl e
                | Inr max_snipe \<Rightarrow>
                    (case and_then (dist p > max_snipe) (index_key (cfg_snipe cfg)) of
                       Inl e \<Rightarrow> Inl e
                     | Inr True \<Rightarrow>
                         Inr (debug_events cfg
                                (Ev_log (Skipped_sniping_distance (name p) max_snipe)), None)
                     | Inr False \<Rightarrow>
                         (case index_key (max_walking_distance cfg) of
                            Inl e \<Rightarrow> Inl e
                          | Inr max_walk \<Rightarrow>
                              (case and_then (dist p > max_walk) (not_key (cfg_snipe cfg)) of
                                 Inl e \<Rightarrow> Inl e
                               | Inr True \<Rightarrow>
                                   Inr (debug_events cfg
                                          (Ev_log (Skipped_walking_distance (name p) max_walk)),
                                        None)
                               | Inr False \<Rightarrow>
                                   let mean_walk_speed = (walk_max b + walk_min b) / 2
                                   in (case and_then
                                              (dist p >
                                                 of_int (disappear_time p - now) *
                                                   mean_walk_speed)
                                              (not_key (cfg_snipe cfg)) of
                                         Inl e \<Rightarrow> Inl e
                                       | Inr True \<Rightarrow>
                                           Inr (debug_events cfg
                                                  (Ev_log (Skipped_unreachable (name p))),
                                                None)
                                       | Inr False \<Rightarrow> Inr ([], Some p)))))))"

text \<open>
  \<^verbatim>\<open>get_pokemon_from_url\<close>: one GET; the two exceptions the source catches give an empty
  list; a reply without the \<^verbatim>\<open>pokemons\<close> key raises out of the function.
\<close>

definition get_pokemon_from_url ::
  "config \<Rightarrow> bot \<Rightarrow> world \<Rightarrow> task \<Rightarrow> py_error + (pokemon list \<times> task)" where
  "get_pokemon_from_url cfg b w st0 =
     (let st = effect (Http_get (address cfg)) st0
      in case http_get w (address cfg) of
           ConnectionError \<Rightarrow>
             Inr ([], emit_event (Ev_fail (Could_not_get_data (address cfg))) st)
         | ValueError \<Rightarrow> Inr ([], emit_event (Ev_fail Json_not_valid) st)
         | Json response \<Rightarrow>
             (case index_key response of
                Inl e \<Rightarrow> Inl e
              | Inr pokemons \<Rightarrow>
                  (case feed_loop
                          (url_item cfg b (caught st) (position st) (time_now w)
                             (pokemon_data st))
                          pokemons of
                     Inl e \<Rightarrow> Inl e
                   | Inr (evs, pokemon_list) \<Rightarrow>
                       Inr (pokemon_list, st\<lparr>trace := trace st @ map Emit evs\<rparr>))))"

subsection \<open>The ledger file: \<^verbatim>\<open>initialize\<close> and \<^verbatim>\<open>dump_caught_pokemon\<close>\<close>

text \<open>
  A path is the list of components handed to \<^verbatim>\<open>os.path.join\<close>. \<^verbatim>\<open>json.dump\<close> followed by
  \<^verbatim>\<open>json.load\<close> is taken to give the list back as it was, so a file holds a ledger.
  \<^verbatim>\<open>initialize\<close> (lines 82-99) copies the settings into \<^verbatim>\<open>self\<close> and loads the ledger from
  \<^verbatim>\<open>_base_dir/map-caught-USER.json\<close> if that file exists. The attributes
  \<^verbatim>\<open>last_map_update\<close>, \<^verbatim>\<open>map_path\<close> and \<^verbatim>\<open>unit\<close> are not read by any function modelled
  here (the last only formats the text of an event) and have no field.
\<close>

definition initialize :: "config \<Rightarrow> bot \<Rightarrow> world \<Rightarrow> task \<Rightarrow> task" where
  "initialize cfg b w st =
     (let data_file = [base_dir b, ''map-caught-'' @ username b @ ''.json'']
      in st\<lparr>pokemon_data := bot_pokemon_list b,
            caught := (case files st data_file of None \<Rightarrow> [] | Some loaded \<Rightarrow> loaded),
            min_ball := get_or (cfg_min_ball cfg) 1,
            walker := get_or (cfg_walker cfg) ''StepWalker'',
            snipe_high_prio_only := get_or (cfg_snipe_high_prio_only cfg) False,
            snipe_high_prio_threshold := get_or (cfg_snipe_high_prio_threshold cfg) 400,
            by_pass_times := 0,
            alt := uniform w (alt_min b) (alt_max b)\<rparr>)"

text \<open>
  \<^verbatim>\<open>dump_caught_pokemon\<close> (lines 313-316) writes the ledger to
  \<^verbatim>\<open>_base_dir/data/map-caught-USER.json\<close>.
\<close>

definition dump_caught_pokemon :: "bot \<Rightarrow> task \<Rightarrow> task" where
  "dump_caught_pokemon b st =
     (let user_data_map_caught = [base_dir b, ''data'', ''map-caught-'' @ username b @ ''.json'']
      in st\<lparr>files := (files st)(user_data_map_caught \<mapsto> caught st)\<rparr>)"

subsection \<open>The Relocation Protocol: \<^verbatim>\<open>snipe\<close>\<close>

definition teleport_to :: "pokemon \<Rightarrow> task \<Rightarrow> task" where
  "teleport_to p st =
     set_position (fval (latitude p)) (fval (longitude p)) (alt st) True
       (emit_event (Ev_teleport_to p) st)"

definition encountered :: "pokemon \<Rightarrow> task \<Rightarrow> task" where
  "encountered p st = emit_event (Ev_encounter p) st"

definition teleport_back :: "rat \<times> rat \<Rightarrow> task \<Rightarrow> task" where
  "teleport_back last_position st =
     emit_event (Ev_teleport_back (fst last_position) (snd last_position)) st"

text \<open>
  \<^verbatim>\<open>not pokemon['encounter_id'] or not pokemon['spawnpoint_id']\<close> (line 285): the second key
  is read only if the first value is truthy, and raises where the dict has no such key.
\<close>

definition ids_invalid :: "pokemon \<Rightarrow> py_error + bool" where
  "ids_invalid p =
     (if \<not> truthy (encounter_id p) then Inr True
      else (case spawnpoint_id p of None \<Rightarrow> Inl KeyError | Some v \<Rightarrow> Inr (\<not> truthy v)))"

text \<open>
  The \<^verbatim>\<open>verify\<close> block (lines 263-289): look around, wait, and search the wild and the
  catchable creatures in that order for the first of the target's species. The result is
  the value of \<^verbatim>\<open>exists\<close> and the target's dict, which is updated from the creature found
  when its own identifiers are not valid.
\<close>

definition verify_target :: "world \<Rightarrow> task \<Rightarrow> pokemon \<Rightarrow> py_error + (bool \<times> pokemon \<times> task)" where
  "verify_target w st0 p =
     (let nearby_stuff = get_meta_cell w (pos0 (position st0)) (pos1 (position st0));
          st = effect Get_meta_cell st0;
          st = effect (Sleep 2) st;
          nearby_pokemons =
            get_or (wild_pokemons nearby_stuff) [] @ get_or (catchable_pokemons nearby_stuff) []
      in case find (\<lambda>n. nearby_pokemon_id n = pokemon_id p) nearby_pokemons of
           None \<Rightarrow> Inr (False, p, st)
         | Some n \<Rightarrow>
             (case ids_invalid p of
                Inl e \<Rightarrow> Inl e
              | Inr True \<Rightarrow>
                  Inr (True,
                       p\<lparr>encounter_id := nearby_encounter_id n,
                         spawn_point_id := nearby_spawn_point_id n,
                         disappear_time := nearby_timestamp_ms n\<rparr>,
                       st)
              | Inr False \<Rightarrow> Inr (True, p, st)))"

text \<open>
  \<^verbatim>\<open>snipe\<close> (lines 247-311). The capture collaborator (\<^verbatim>\<open>PokemonCatchWorker\<close>), the
  heartbeat and the sleeps are calls out of this file: each leaves its entry in the trace
  and, as keep-alive, handshake and pause, none of them moves the trainer.
\<close>

definition snipe ::
  "config \<Rightarrow> bot \<Rightarrow> world \<Rightarrow> task \<Rightarrow> pokemon \<Rightarrow> py_error + (worker_result \<times> task)" where
  "snipe cfg b w st0 p0 =
     (let last_position = (pos0 (position st0), pos1 (position st0));
          st = effect Heartbeat st0;
          st = teleport_to p0 st;
          st = effect (Sleep 2) st;
          exists = enable_social b;
          verify = (\<not> enable_social b)
      in case (if verify then verify_target w st p0 else Inr (exists, p0, st)) of
           Inl e \<Rightarrow> Inl e
         | Inr (exists, p, st) \<Rightarrow>
             if exists then
               let st = encountered p st;
                   st = effect (Create_encounter p) st;
                   st = effect (Sleep (get_or (snipe_sleep_sec cfg) 2)) st;
                   st = teleport_back last_position st;
                   st = set_position (fst last_position) (snd last_position) (alt st) False st;
                   st = effect (Sleep (get_or (snipe_sleep_sec cfg) 2)) st;
                   st = effect Heartbeat st;
                   st = effect (Catch_work p) st;
                   st = st\<lparr>caught := inspect (caught st) p\<rparr>
               in Inr (SUCCESS, st)
             else
               let st = emit_event (Ev_fail (Doesnt_exist (name p))) st;
                   st = st\<lparr>caught := inspect (caught st) p\<rparr>;
                   st = effect (Sleep (get_or (snipe_sleep_sec cfg) 2)) st;
                   st = teleport_back last_position st;
                   st = set_position (fst last_position) (snd last_position) (alt st) False st;
                   st = effect (Sleep (get_or (snipe_sleep_sec cfg) 2)) st
               in Inr (SUCCESS, st))"

subsection \<open>The tick: \<^verbatim>\<open>work\<close>\<close>

text \<open>Lines 333-343: \<open>None\<close> is the early \<^verbatim>\<open>return WorkerResult.SUCCESS\<close> of a skipped pass.\<close>

definition retrieve ::
  "config \<Rightarrow> bot \<Rightarrow> world \<Rightarrow> task \<Rightarrow> py_error + (pokemon list option \<times> task)" where
  "retrieve cfg b w st0 =
     (if enable_social b then
        (case index_key (cfg_snipe cfg) of
           Inl e \<Rightarrow> Inl e
         | Inr sn \<Rightarrow>
             if sn then
               let st = st0\<lparr>by_pass_times := by_pass_times st0 + 1\<rparr>
               in if by_pass_times st < get_or (skip_rounds cfg) 30
                  then Inr (None, debug_log cfg (Skipping_pass (by_pass_times st)) st)
                  else
                    (case get_pokemon_from_social cfg b w (st\<lparr>by_pass_times := 0\<rparr>) of
                       Inl e \<Rightarrow> Inl e
                     | Inr (pokemons, st) \<Rightarrow> Inr (Some pokemons, st))
             else
               (case get_pokemon_from_social cfg b w st0 of
                  Inl e \<Rightarrow> Inl e
                | Inr (pokemons, st) \<Rightarrow> Inr (Some pokemons, st)))
      else
        (case get_pokemon_from_url cfg b w st0 of
           Inl e \<Rightarrow> Inl e
         | Inr (pokemons, st) \<Rightarrow> Inr (Some pokemons, st)))"

text \<open>The Target Selector, lines 346-349: the two sorts, the VIP sort last.\<close>

definition select_targets :: "config \<Rightarrow> pokemon list \<Rightarrow> pokemon list" where
  "select_targets cfg pokemons =
     (let by_priority =
            (if mode cfg = ''priority'' then sort_reverse priority pokemons else pokemons)
      in if prioritize_vips cfg then sort_reverse is_vip by_priority else by_priority)"

text \<open>
  The loop of the high-priority mode, lines 362-374. Both ways out of it return
  \<^verbatim>\<open>WorkerResult.SUCCESS\<close>, so the result is the state alone. \<open>cnt\<close> is \<^verbatim>\<open>count\<close>;
  \<^verbatim>\<open>count is not 1\<close> compares small integers, for which identity is equality.
\<close>

fun snipe_chain ::
  "config \<Rightarrow> bot \<Rightarrow> world \<Rightarrow> pokemon list \<Rightarrow> int \<Rightarrow> task \<Rightarrow> py_error + task" where
  "snipe_chain cfg b w [] cnt st = Inr st"
| "snipe_chain cfg b w (p # ps) cnt st =
     (if snipe_high_prio_threshold st < priority p then
        (case snipe cfg b w st p of
           Inl e \<Rightarrow> Inl e
         | Inr (r, st1) \<Rightarrow>
             if cnt + 1 \<ge> get_or (snipe_max_in_chain cfg) 2 then Inr st1
             else
               snipe_chain cfg b w ps (cnt + 1)
                 (if cnt + 1 \<noteq> 1
                  then effect (Sleep (get_or (snipe_sleep_sec cfg) 2 * 5)) st1 else st1))
      else snipe_chain cfg b w ps cnt (debug_log cfg (Not_good_enough p) st))"

text \<open>
  \<^verbatim>\<open>get_nearest_fort_on_the_way\<close> (lines 537-560). The \<^verbatim>\<open>while\<close> loop walks the list by
  index and deletes in place every fort whose detour is not under the allowed ratio.
\<close>

function fort_loop ::
  "config \<Rightarrow> bot \<Rightarrow> task \<Rightarrow> pokemon \<Rightarrow> nat \<Rightarrow> fort list \<Rightarrow> fort list" where
  "fort_loop cfg b st p i forts =
     (if i < length forts then
        let ratio = get_or (max_extra_dist_fort cfg) 20;
            dist_self_to_fort =
              distance b (pos0 (position st)) (pos1 (position st))
                (f_latitude (forts ! i)) (f_longitude (forts ! i));
            dist_fort_to_pokemon =
              distance b (fval (latitude p)) (fval (longitude p))
                (f_latitude (forts ! i)) (f_longitude (forts ! i));
            total_dist = dist_self_to_fort + dist_fort_to_pokemon;
            dist_self_to_pokemon =
              distance b (pos0 (position st)) (pos1 (position st))
                (fval (latitude p)) (fval (longitude p))
        in if total_dist < (1 + ratio / 100) * dist_self_to_pokemon
           then fort_loop cfg b st p (i + 1) forts
           else fort_loop cfg b st p i (take i forts @ drop (Suc i) forts)
      else forts)"
  by pat_completeness auto
termination
  by (relation "measure (\<lambda>(cfg, b, st, p, i, forts). length forts - i)") auto

declare fort_loop.simps [simp del]

definition get_nearest_fort_on_the_way ::
  "config \<Rightarrow> bot \<Rightarrow> world \<Rightarrow> task \<Rightarrow> pokemon \<Rightarrow> fort option" where
  "get_nearest_fort_on_the_way cfg b w st p =
     (let forts = get_forts w;
          forts = filter (\<lambda>x. f_id x \<notin> set (fort_timeouts w)) forts;
          forts = fort_loop cfg b st p 0 forts
      in if length forts > 0 then Some (hd forts) else None)"

text \<open>
  \<^verbatim>\<open>_move_to\<close> and \<^verbatim>\<open>_move_to_pokemon_througt_fort\<close> emit their event and hand back the
  walker that \<^verbatim>\<open>walker_factory\<close> builds (\<open>None\<close>: no walker object).
\<close>

definition move_to :: "world \<Rightarrow> pokemon \<Rightarrow> task \<Rightarrow> walker_obj option \<times> task" where
  "move_to w p st =
     (walker_factory w (walker st) (fval (latitude p)) (fval (longitude p)),
      emit_event (Ev_move_towards p) st)"

definition move_to_pokemon_througt_fort ::
  "bot \<Rightarrow> world \<Rightarrow> fort \<Rightarrow> pokemon \<Rightarrow> task \<Rightarrow> walker_obj option \<times> task" where
  "move_to_pokemon_througt_fort b w nearest_fort p st0 =
     (let lat = f_latitude nearest_fort;
          lng = f_longitude nearest_fort;
          fortID = f_id nearest_fort;
          st = effect (Fort_details fortID lat lng) st0;
          fort_name = get_or (fort_details w fortID) ''Unknown'';
          d = distance b (pos0 (position st)) (pos1 (position st)) lat lng;
          st = (if d > MAX_DISTANCE_FORT_IS_REACHABLE b
                then emit_event (Ev_through_fort fort_name d p) st
                else emit_event Ev_arrived_at_fort st)
      in (walker_factory w (walker st) lat lng, st))"

text \<open>
  Modelled from the spec: the Path-walker of section 6 is not in this file. One call of
  \<^verbatim>\<open>step()\<close> moves the trainer and answers whether the destination is reached.
\<close>

definition walker_step :: "walker_obj \<Rightarrow> task \<Rightarrow> bool \<times> task" where
  "walker_step wk st =
     (step wk,
      effect (Walker_step (walker st) (fst (moved_to wk)) (fst (snd (moved_to wk))))
        (st\<lparr>position := moved_to wk\<rparr>))"

definition balls :: "world \<Rightarrow> int" where
  "balls w = item_count w POKEBALL_ID + item_count w GREATBALL_ID + item_count w ULTRABALL_ID"

text \<open>
  The walking part of \<^verbatim>\<open>work\<close>, lines 379-407. A branch that runs off the end of the
  function returns \<^verbatim>\<open>None\<close>. In the branch through a fort \<open>nearest_fort\<close> is not \<open>None\<close>.
\<close>

definition work_walk ::
  "config \<Rightarrow> bot \<Rightarrow> world \<Rightarrow> task \<Rightarrow> pokemon \<Rightarrow> py_error + (worker_result option \<times> task)" where
  "work_walk cfg b w st0 p =
     (if balls w < min_ball st0 then Inr (Some SUCCESS, st0)
      else
        let nearest_fort = get_nearest_fort_on_the_way cfg b w st0 p
        in if is_vip p \<or> nearest_fort = None then
             (case move_to w p (st0\<lparr>capture_locked := Some (pokemon_id p)\<rparr>) of
                (step_walker, st) \<Rightarrow>
                  (case step_walker of
                     None \<Rightarrow> Inl AttributeError
                   | Some wk \<Rightarrow>
                       (case walker_step wk st of
                          (arrived, st) \<Rightarrow>
                            if \<not> arrived then
                              if dist p < MAX_DISTANCE_POKEMON_IS_REACHABLE b then
                                let st = encountered p st;
                                    st = st\<lparr>capture_locked := None\<rparr>;
                                    st = st\<lparr>caught := inspect (caught st) p\<rparr>
                                in Inr (Some SUCCESS, st)
                              else Inr (Some RUNNING, st)
                            else Inr (None, st))))
           else
             (case move_to_pokemon_througt_fort b w (the nearest_fort) p st0 of
                (step_walker, st) \<Rightarrow>
                  (case step_walker of
                     None \<Rightarrow> Inr (Some RUNNING, st)
                   | Some wk \<Rightarrow>
                       (case walker_step wk st of
                          (arrived, st) \<Rightarrow>
                            if \<not> arrived then Inr (Some RUNNING, st) else Inr (None, st)))))"

text \<open>\<^verbatim>\<open>work\<close>, lines 318-377, then the walking part.\<close>

definition work ::
  "config \<Rightarrow> bot \<Rightarrow> world \<Rightarrow> task \<Rightarrow> py_error + (worker_result option \<times> task)" where
  "work cfg b w st0 =
     (if balls w < min_ball st0
      then Inr (Some SUCCESS, debug_log cfg (Not_enough_balls (balls w) (min_ball st0)) st0)
      else
        (case retrieve cfg b w (dump_caught_pokemon b st0) of
           Inl e \<Rightarrow> Inl e
         | Inr (None, st) \<Rightarrow> Inr (Some SUCCESS, st)
         | Inr (Some fetched, st) \<Rightarrow>
             let pokemons = select_targets cfg fetched
             in if length pokemons < 1
                then Inr (Some SUCCESS, debug_log cfg No_pokemons st)
                else
                  let p = hd pokemons;
                      st = debug_log cfg (How_many (length pokemons)) st
                  in (case index_key (cfg_snipe cfg) of
                        Inl e \<Rightarrow> Inl e
                      | Inr True \<Rightarrow>
                          if snipe_high_prio_only st then
                            (case snipe_chain cfg b w pokemons 0 st of
                               Inl e \<Rightarrow> Inl e
                             | Inr st \<Rightarrow> Inr (Some SUCCESS, st))
                          else
                            (case snipe cfg b w st p of
                               Inl e \<Rightarrow> Inl e
                             | Inr (r, st) \<Rightarrow> Inr (Some r, st))
                      | Inr False \<Rightarrow> work_walk cfg b w st p)))"



subsection \<open>Sample data for the worked instances\<close>

definition pokemon_at :: "rat \<Rightarrow> rat \<Rightarrow> pokemon" where
  "pokemon_at lat lon =
     \<lparr>pokemon_id = 16, latitude = Exact lat, longitude = Exact lon, encounter_id = Blank,
      spawn_point_id = Blank, spawnpoint_id = None, disappear_time = 0, name = ''Pidgey'',
      is_vip = False, priority = 0, dist = 0, iv = None\<rparr>"


text \<open>
  A stand-in for the host's \<^verbatim>\<open>distance\<close> helper in the worked instances (100 km per degree
  along each axis), a species table of three, a configuration that allow-lists two of them
  and a bot that holds the third as VIP. The trainer stands at \<open>(0, 0)\<close> and the clock reads
  1000; a sighting expires at 2000, so 3000 m are in reach at the mean walking speed 3.
  \<open>pokemon_at\<close>, \<open>url_at\<close> and \<open>social_at\<close> take the coordinates as numbers. Every
  coordinate is a binary fraction, hence the exact value of a float: a sighting at
  latitude \<open>1 / 256\<close> is 390.625 m away, one at \<open>1 / 2048\<close> 48.828125 m, one at
  \<open>1 / 4096\<close> 24.4140625 m. The latitudes \<open>1 / 4096\<close> and \<open>257 / 1048576\<close> both print as
  \<^verbatim>\<open>0.0002\<close>.
\<close>

definition flat_distance :: "rat \<Rightarrow> rat \<Rightarrow> rat \<Rightarrow> rat \<Rightarrow> rat" where
  "flat_distance lat1 lon1 lat2 lon2 = 100000 * (\<bar>lat1 - lat2\<bar> + \<bar>lon1 - lon2\<bar>)"

definition demo_bot :: bot where
  "demo_bot =
     \<lparr>vips = [''Venusaur''], walk_min = 2, walk_max = 4, enable_social = False,
      username = ''ash'', alt_min = 0, alt_max = 1,
      bot_pokemon_list = [''Bulbasaur'', ''Ivysaur'', ''Venusaur''], base_dir = ''bot'',
      MAX_DISTANCE_POKEMON_IS_REACHABLE = 38, MAX_DISTANCE_FORT_IS_REACHABLE = 38,
      distance = flat_distance,
      b64_long = (\<lambda>v. if v = ''MTIz'' then Some 123 else None)\<rparr>"

definition demo_config :: config where
  "demo_config =
     \<lparr>catch = [''Bulbasaur'' \<mapsto> 5, ''Ivysaur'' \<mapsto> 20], mode = ''priority'',
      prioritize_vips = True, address = ''http://localhost:5000/raw_data'', debug = None,
      cfg_snipe = Some False, max_sniping_distance = Some 100, max_walking_distance = Some 1000,
      skip_rounds = None, snipe_max_in_chain = None, snipe_sleep_sec = None,
      max_extra_dist_fort = None, cfg_min_ball = None, cfg_walker = None,
      cfg_snipe_high_prio_only = None, cfg_snipe_high_prio_threshold = None\<rparr>"

definition demo_world :: "url_sighting list \<Rightarrow> world" where
  "demo_world feed =
     \<lparr>time_now = 1000, item_count = (\<lambda>i. 10), http_get = (\<lambda>a. Json (Some feed)),
      get_meta_cell = (\<lambda>lat lon. \<lparr>wild_pokemons = None, catchable_pokemons = None\<rparr>),
      get_forts = [], fort_timeouts = [],
      walker_factory = (\<lambda>n lat lon. Some \<lparr>step = False, moved_to = (lat, lon, 0)\<rparr>),
      fort_details = (\<lambda>i. None), uniform = (\<lambda>lo hi. lo)\<rparr>"

definition demo_task :: task where
  "demo_task =
     \<lparr>caught = [], min_ball = 1, walker = ''StepWalker'', snipe_high_prio_only = False,
      snipe_high_prio_threshold = 400, by_pass_times = 0,
      pokemon_data = [''Bulbasaur'', ''Ivysaur'', ''Venusaur''], alt = 0,
      position = (0, 0, 0), capture_locked = None, mqtt_pokemon_list = None,
      files = Map.empty, trace = []\<rparr>"

definition url_at :: "int \<Rightarrow> rat \<Rightarrow> rat \<Rightarrow> url_sighting" where
  "url_at i lat lon =
     \<lparr>u_pokemon_id = i, u_latitude = Exact lat, u_longitude = Exact lon,
      u_disappear_time = 2000000,
      u_encounter_id = Null, u_spawnpoint_id = Null, u_iv = None\<rparr>"

definition social_at :: "int \<Rightarrow> rat \<Rightarrow> rat \<Rightarrow> social_sighting" where
  "social_at i lat lon =
     \<lparr>s_pokemon_id = i, s_latitude = Exact lat, s_longitude = Exact lon,
      s_encounter_id = Num 7,
      s_spawn_point_id = Str ''sp'', s_expiration_timestamp_ms = 2000000\<rparr>"

definition near_bulbasaur :: pokemon where
  "near_bulbasaur =
     \<lparr>pokemon_id = 1, latitude = Exact (1 / 2048), longitude = Exact 0, encounter_id = Num 7,
      spawn_point_id = Str ''sp'', spawnpoint_id = None, disappear_time = 2000,
      name = ''Bulbasaur'', is_vip = False, priority = 5, dist = 3125 / 64, iv = None\<rparr>"

definition seen_place :: pokemon where
  "seen_place = pokemon_at (1 / 4096) 0"

definition near_venusaur :: pokemon where
  "near_venusaur =
     \<lparr>pokemon_id = 3, latitude = Exact (1 / 2048), longitude = Exact 0, encounter_id = Blank,
      spawn_point_id = Blank, spawnpoint_id = Some Blank, disappear_time = 2000,
      name = ''Venusaur'', is_vip = True, priority = 0, dist = 3125 / 64, iv = Some 0\<rparr>"

text \<open>
  Candidates with a given priority and VIP flag; a Bulbasaur 24 m from the trainer as the
  pull filter returns it; surroundings that show one; the states in which the worked runs of
  \<^verbatim>\<open>snipe\<close> and \<^verbatim>\<open>work\<close> end; a world whose walker reports arrival.
\<close>

definition ranked :: "int \<Rightarrow> bool \<Rightarrow> pokemon" where
  "ranked n v = (pokemon_at 0 0)\<lparr>priority := n, is_vip := v\<rparr>"

definition url_bulbasaur :: pokemon where
  "url_bulbasaur =
     \<lparr>pokemon_id = 1, latitude = Exact (1 / 4096), longitude = Exact 0, encounter_id = Blank,
      spawn_point_id = Blank, spawnpoint_id = Some Blank, disappear_time = 2000,
      name = ''Bulbasaur'', is_vip = False, priority = 5, dist = 3125 / 128, iv = Some 0\<rparr>"

definition seen_cell :: cell where
  "seen_cell =
     \<lparr>wild_pokemons = None,
      catchable_pokemons = Some [Catchable 1 (Num 99) (Str ''sp9'') 5000]\<rparr>"

definition found_bulbasaur :: pokemon where
  "found_bulbasaur =
     url_bulbasaur\<lparr>encounter_id := Num 99, spawn_point_id := Str ''sp9'',
       disappear_time := 5000\<rparr>"

definition captured_task :: task where
  "captured_task =
     demo_task\<lparr>position := (1, 2, 0), caught := [found_bulbasaur],
       trace := [Heartbeat, Emit (Ev_teleport_to url_bulbasaur),
                 Set_position (1 / 4096) 0 0 True, Sleep 2, Get_meta_cell, Sleep 2,
                 Emit (Ev_encounter found_bulbasaur), Create_encounter found_bulbasaur,
                 Sleep 2, Emit (Ev_teleport_back 1 2), Set_position 1 2 0 False, Sleep 2,
                 Heartbeat, Catch_work found_bulbasaur]\<rparr>"

definition aborted_task :: task where
  "aborted_task =
     demo_task\<lparr>position := (1, 2, 0), caught := [url_bulbasaur],
       trace := [Heartbeat, Emit (Ev_teleport_to url_bulbasaur),
                 Set_position (1 / 4096) 0 0 True, Sleep 2, Get_meta_cell, Sleep 2,
                 Emit (Ev_fail (Doesnt_exist ''Bulbasaur'')), Sleep 2,
                 Emit (Ev_teleport_back 1 2), Set_position 1 2 0 False, Sleep 2]\<rparr>"

definition arriving_world :: world where
  "arriving_world =
     (demo_world [url_at 1 (1 / 4096) 0])
       \<lparr>walker_factory := (\<lambda>n lat lon. Some \<lparr>step = True, moved_to = (lat, lon, 0)\<rparr>)\<rparr>"

definition dumped_task :: task where
  "dumped_task = demo_task\<lparr>files := [[''bot'', ''data'', ''map-caught-ash.json''] \<mapsto> []]\<rparr>"

definition encountered_task :: task where
  "encountered_task =
     dumped_task\<lparr>position := (1 / 4096, 0, 0), caught := [url_bulbasaur],
       trace := [Http_get ''http://localhost:5000/raw_data'',
                 Emit (Ev_move_towards url_bulbasaur),
                 Walker_step ''StepWalker'' (1 / 4096) 0,
                 Emit (Ev_encounter url_bulbasaur)]\<rparr>"

section \<open>Properties of the four-decimal rendering\<close>

lemma digit_char_inj: "a < 10 \<Longrightarrow> b < 10 \<Longrightarrow> digit_char a = digit_char b \<Longrightarrow> a = b"
proof -
  assume a: "a < 10" and b: "b < 10" and e: "digit_char a = digit_char b"
  have A: "a \<in> {0,1,2,3,4,5,6,7,8,9}" using a by auto
  have B: "b \<in> {0,1,2,3,4,5,6,7,8,9}" using b by auto
  show ?thesis using A B e by (auto simp: digit_char_def)
qed

lemma digit_char_not_minus: "d < 10 \<Longrightarrow> digit_char d \<noteq> CHR ''-''"
proof -
  assume a: "d < 10"
  have A: "d \<in> {0,1,2,3,4,5,6,7,8,9}" using a by auto
  show ?thesis using A by (auto simp: digit_char_def)
qed

lemma str_nat_nonempty: "str_nat n \<noteq> []"
  by (subst str_nat.simps) simp

lemma str_nat_hd: "hd (str_nat n) \<noteq> CHR ''-''"
proof (induction n rule: str_nat.induct)
  case (1 n)
  show ?case
  proof (cases "n < 10")
    case True
    then show ?thesis by (subst str_nat.simps) (simp add: digit_char_not_minus)
  next
    case False
    with 1 show ?thesis by (subst str_nat.simps) (simp add: str_nat_nonempty)
  qed
qed

lemma str_nat_length_one: "length (str_nat n) = 1 \<longleftrightarrow> n < 10"
proof (cases "n < 10")
  case True
  then show ?thesis by (subst str_nat.simps) simp
next
  case False
  have "length (str_nat (n div 10)) \<noteq> 0" using str_nat_nonempty by simp
  with False show ?thesis by (subst str_nat.simps) simp
qed

lemma str_nat_inj: "str_nat a = str_nat b \<Longrightarrow> a = b"
proof (induction a arbitrary: b rule: str_nat.induct)
  case (1 a)
  show ?case
  proof (cases "a < 10")
    case True
    then have "length (str_nat a) = 1" using str_nat_length_one by blast
    then have b: "b < 10" using "1.prems" str_nat_length_one by metis
    have "[digit_char a] = [digit_char b]"
      using "1.prems" True b by (simp add: str_nat.simps)
    then show ?thesis using True b digit_char_inj by simp
  next
    case False
    then have "length (str_nat a) \<noteq> 1" using str_nat_length_one by blast
    then have b: "\<not> b < 10" using "1.prems" str_nat_length_one by metis
    have e: "str_nat (a div 10) @ [digit_char (a mod 10)] =
             str_nat (b div 10) @ [digit_char (b mod 10)]"
      using "1.prems" False b str_nat.simps [of a] str_nat.simps [of b] by simp
    then have "str_nat (a div 10) = str_nat (b div 10)"
      and d: "digit_char (a mod 10) = digit_char (b mod 10)"
      by simp_all
    then have "a div 10 = b div 10" using "1.IH" False by blast
    moreover have "a mod 10 = b mod 10"
      using d digit_char_inj [of "a mod 10" "b mod 10"] by simp
    ultimately show ?thesis by (metis div_mult_mod_eq)
  qed
qed

lemma round_half_even_nonneg: "0 \<le> q \<Longrightarrow> 0 \<le> round_half_even q"
  by (auto simp: round_half_even_def Let_def)

lemma frac_digits_inj:
  fixes m n :: nat
  assumes "m div 10000 = n div 10000"
    and "[digit_char (m div 1000 mod 10), digit_char (m div 100 mod 10),
          digit_char (m div 10 mod 10), digit_char (m mod 10)] =
         [digit_char (n div 1000 mod 10), digit_char (n div 100 mod 10),
          digit_char (n div 10 mod 10), digit_char (n mod 10)]"
  shows "m = n"
proof -
  have a3: "m div 1000 mod 10 = n div 1000 mod 10"
    using assms(2) digit_char_inj [of "m div 1000 mod 10" "n div 1000 mod 10"] by simp
  have a2: "m div 100 mod 10 = n div 100 mod 10"
    using assms(2) digit_char_inj [of "m div 100 mod 10" "n div 100 mod 10"] by simp
  have a1: "m div 10 mod 10 = n div 10 mod 10"
    using assms(2) digit_char_inj [of "m div 10 mod 10" "n div 10 mod 10"] by simp
  have a0: "m mod 10 = n mod 10"
    using assms(2) digit_char_inj [of "m mod 10" "n mod 10"] by simp
  have step: "a div 10 = b div 10 \<Longrightarrow> a mod 10 = b mod 10 \<Longrightarrow> a = b" for a b :: nat
    by (metis div_mult_mod_eq)
  have "m div 1000 div 10 = n div 1000 div 10"
    using assms(1) by (simp add: div_mult2_eq [symmetric])
  then have "m div 1000 = n div 1000" using a3 step by blast
  then have "m div 100 div 10 = n div 100 div 10" by (simp add: div_mult2_eq [symmetric])
  then have "m div 100 = n div 100" using a2 step by blast
  then have "m div 10 div 10 = n div 10 div 10" by (simp add: div_mult2_eq [symmetric])
  then have "m div 10 = n div 10" using a1 step by blast
  then show ?thesis using a0 step by blast
qed

text \<open>
  Two coordinates print alike exactly when they have the same sign and round to the same
  count of ten-thousandths.
\<close>

lemma fmt4_eq_iff: "fmt4 x = fmt4 y \<longleftrightarrow> key4 x = key4 y"
proof
  assume "key4 x = key4 y"
  then show "fmt4 x = fmt4 y" by (simp add: key4_def fmt4_def)
next
  assume e: "fmt4 x = fmt4 y"
  define m where "m = nat (round_half_even (\<bar>fval x\<bar> * 10000))"
  define n where "n = nat (round_half_even (\<bar>fval y\<bar> * 10000))"
  define dm where "dm = [digit_char (m div 1000 mod 10), digit_char (m div 100 mod 10),
          digit_char (m div 10 mod 10), digit_char (m mod 10)]"
  define dn where "dn = [digit_char (n div 1000 mod 10), digit_char (n div 100 mod 10),
          digit_char (n div 10 mod 10), digit_char (n mod 10)]"
  have fx: "fmt4 x = (if signbit x then ''-'' else '''') @ str_nat (m div 10000) @ ''.'' @ dm"
    by (simp add: fmt4_def m_def dm_def Let_def)
  have fy: "fmt4 y = (if signbit y then ''-'' else '''') @ str_nat (n div 10000) @ ''.'' @ dn"
    by (simp add: fmt4_def n_def dn_def Let_def)
  have sign: "signbit x = signbit y"
  proof (rule ccontr)
    assume "signbit x \<noteq> signbit y"
    then consider "signbit x" "\<not> signbit y" | "\<not> signbit x" "signbit y" by blast
    then show False
    proof cases
      case 1
      then have "hd (fmt4 x) = CHR ''-''" using fx by simp
      then have "hd (fmt4 y) = CHR ''-''" using e by simp
      moreover have "hd (fmt4 y) = hd (str_nat (n div 10000))"
        using 1 fy str_nat_nonempty by simp
      ultimately show False using str_nat_hd by metis
    next
      case 2
      then have "hd (fmt4 y) = CHR ''-''" using fy by simp
      then have "hd (fmt4 x) = CHR ''-''" using e by simp
      moreover have "hd (fmt4 x) = hd (str_nat (m div 10000))"
        using 2 fx str_nat_nonempty by simp
      ultimately show False using str_nat_hd by metis
    qed
  qed
  have "str_nat (m div 10000) @ ''.'' @ dm = str_nat (n div 10000) @ ''.'' @ dn"
    using e fx fy sign by (simp split: if_splits)
  moreover have "length (''.'' @ dm) = length (''.'' @ dn)" by (simp add: dm_def dn_def)
  ultimately have "str_nat (m div 10000) = str_nat (n div 10000)" and "dm = dn"
    by simp_all
  then have "m = n"
    using frac_digits_inj [of m n] str_nat_inj unfolding dm_def dn_def by blast
  moreover have "0 \<le> round_half_even (\<bar>fval x\<bar> * 10000)" "0 \<le> round_half_even (\<bar>fval y\<bar> * 10000)"
    by (simp_all add: round_half_even_nonneg)
  ultimately have "round_half_even (\<bar>fval x\<bar> * 10000) = round_half_even (\<bar>fval y\<bar> * 10000)"
    unfolding m_def n_def by linarith
  with sign show "key4 x = key4 y" by (simp add: key4_def)
qed

lemma round_half_even_of_int: "round_half_even (of_int k) = k"
  by (simp add: round_half_even_def)


lemma floor_rat_numeral_div: "\<lfloor>numeral a / numeral b :: rat\<rfloor> = numeral a div numeral b"
  using floor_divide_of_int_eq [of "numeral a" "numeral b", where ?'a = rat] by simp

lemma floor_rat_one_div: "\<lfloor>1 / numeral b :: rat\<rfloor> = 1 div numeral b"
  using floor_divide_of_int_eq [of 1 "numeral b", where ?'a = rat] by simp

lemmas key4_eval = key4_def round_half_even_def Let_def floor_rat_numeral_div floor_rat_one_div

lemma same_spot_key4:
  "same_spot p c \<longleftrightarrow>
     key4 (latitude p) = key4 (latitude c) \<and> key4 (longitude p) = key4 (longitude c)"
  by (simp add: same_spot_def fmt4_eq_iff)

text \<open>
  Rounding is odd, so the printed text is the rounded number together with the sign bit.
\<close>

lemma round_half_even_minus: "round_half_even (- q) = - round_half_even q"
proof (cases "q \<in> \<int>")
  case True
  then obtain k where "q = of_int k" by (auto elim: Ints_cases)
  then show ?thesis
    using round_half_even_of_int [of k] round_half_even_of_int [of "- k"] by simp
next
  case False
  define f where "f = \<lfloor>q\<rfloor>"
  have ne: "q \<noteq> of_int f" using False by (metis Ints_of_int)
  have "of_int f \<le> q" unfolding f_def by simp
  then have lt1: "of_int f < q" using ne by simp
  have lt2: "q < of_int f + 1" unfolding f_def by linarith
  note lt = lt1 lt2
  have fl: "\<lfloor>- q\<rfloor> = - f - 1" using lt by (simp add: floor_unique)
  show ?thesis
    using lt unfolding round_half_even_def Let_def fl f_def [symmetric]
    by (auto simp: field_simps)
qed

lemma round_half_even_abs: "round_half_even \<bar>q\<bar> = \<bar>round_half_even q\<bar>"
proof (cases "0 \<le> q")
  case True then show ?thesis using round_half_even_nonneg [of q] by simp
next
  case False
  then have "0 \<le> round_half_even (- q)" by (simp add: round_half_even_nonneg)
  then show ?thesis using False by (simp add: round_half_even_minus)
qed

lemma signbit_fval: "signbit x \<Longrightarrow> fval x \<le> 0" "\<not> signbit x \<Longrightarrow> 0 \<le> fval x"
  by (cases x; simp)+

lemma key4_eq_rounded4:
  "key4 x = key4 y \<longleftrightarrow> rounded4 x = rounded4 y \<and> signbit x = signbit y"
proof -
  have r: "rounded4 x = rounded4 y \<longleftrightarrow>
           round_half_even (fval x * 10000) = round_half_even (fval y * 10000)"
    by (simp add: rounded4_def)
  have a: "\<bar>fval z\<bar> * 10000 = \<bar>fval z * 10000\<bar>" for z by (simp add: abs_mult)
  have s: "signbit z \<Longrightarrow> round_half_even (fval z * 10000) \<le> 0" for z
    using signbit_fval(1) [of z] round_half_even_nonneg [of "- (fval z * 10000)"]
    by (simp add: round_half_even_minus)
  have n: "\<not> signbit z \<Longrightarrow> 0 \<le> round_half_even (fval z * 10000)" for z
    using signbit_fval(2) [of z] round_half_even_nonneg [of "fval z * 10000"] by simp
  show ?thesis
    unfolding key4_def r a round_half_even_abs
    using s [of x] s [of y] n [of x] n [of y] by (cases "signbit x"; cases "signbit y"; auto)
qed


lemma fmt4_eq_rounded4:
  "fmt4 x = fmt4 y \<longleftrightarrow> rounded4 x = rounded4 y \<and> signbit x = signbit y"
  by (simp add: fmt4_eq_iff key4_eq_rounded4)

lemma round_half_even_small: "round_half_even (- (625 / 8192)) = 0"
proof -
  have "round_half_even (625 / 8192) = 0" by (simp add: key4_eval)
  then show ?thesis by (simp only: round_half_even_minus)
qed

lemma rounded4_small:
  "rounded4 (Exact (- (1 / 131072))) = 0" "rounded4 (Exact (1 / 131072)) = 0"
  "rounded4 Minus_zero = 0" "rounded4 (Exact 0) = 0"
proof -
  have "rounded4 (Exact (- (1 / 131072))) = of_int (round_half_even (- (625 / 8192))) / 10000"
    by (simp add: rounded4_def)
  then show "rounded4 (Exact (- (1 / 131072))) = 0" by (simp add: round_half_even_small)
  show "rounded4 (Exact (1 / 131072)) = 0" "rounded4 Minus_zero = 0" "rounded4 (Exact 0) = 0"
    by (simp_all add: rounded4_def key4_eval)
qed

lemma key4_small:
  "key4 (Exact (- (1 / 131072))) = (True, 0)" "key4 (Exact (1 / 131072)) = (False, 0)"
  "key4 Minus_zero = (True, 0)" "key4 (Exact 0) = (False, 0)"
  by (simp_all add: key4_eval)

section \<open>Properties of the Dedup Ledger\<close>

lemma same_spot_refl: "same_spot p p"
  by (simp add: same_spot_def)

lemma is_inspected_iff: "is_inspected cs p \<longleftrightarrow> (\<exists>c \<in> set cs. same_spot p c)"
  by (induction cs) auto

lemma is_inspected_append:
  "is_inspected (cs @ ds) p \<longleftrightarrow> is_inspected cs p \<or> is_inspected ds p"
  by (auto simp: is_inspected_iff)

lemma is_inspected_inspect: "is_inspected (inspect cs p) p"
  by (simp add: inspect_def is_inspected_append same_spot_refl)














lemma is_inspected_rounded4:
  "is_inspected cs p \<longleftrightarrow>
     (\<exists>c \<in> set cs. rounded4 (latitude p) = rounded4 (latitude c) \<and>
                   signbit (latitude p) = signbit (latitude c) \<and>
                   rounded4 (longitude p) = rounded4 (longitude c) \<and>
                   signbit (longitude p) = signbit (longitude c))"
  by (auto simp: is_inspected_iff same_spot_def fmt4_eq_rounded4)

lemma inspect_fixed: "inspect cs p = cs \<longleftrightarrow> is_inspected cs p"
proof
  assume e: "inspect cs p = cs"
  show "is_inspected cs p"
    using is_inspected_inspect [of cs p] by (simp add: e)
next
  assume "is_inspected cs p"
  then show "inspect cs p = cs" by (simp add: inspect_def)
qed

text \<open>
  Claim C10, as the specification words it, fails: the ledger compares the printed texts,
  and a coordinate that rounds to zero prints as \<^verbatim>\<open>-0.0000\<close> when its sign bit is set and as
  \<^verbatim>\<open>0.0000\<close> otherwise. A target at latitude \<open>- (1 / 131072)\<close> and an entry at latitude
  \<open>1 / 131072\<close> (1.7 m apart, on the two sides of the equator) have equal coordinates once
  rounded to 4 decimal places, under every rounding rule, and yet \<^verbatim>\<open>inspect\<close> appends the
  target as a second entry. The same happens for a target at \<^verbatim>\<open>-0.0\<close> and an entry at \<^verbatim>\<open>0.0\<close>.
\<close>

theorem inspect_rounding_counterexample:
  "rounded4 (latitude (pokemon_at (- (1 / 131072)) 0)) =
     rounded4 (latitude (pokemon_at (1 / 131072) 0)) \<and>
   rounded4 (longitude (pokemon_at (- (1 / 131072)) 0)) =
     rounded4 (longitude (pokemon_at (1 / 131072) 0)) \<and>
   inspect [pokemon_at (1 / 131072) 0] (pokemon_at (- (1 / 131072)) 0) =
     [pokemon_at (1 / 131072) 0, pokemon_at (- (1 / 131072)) 0] \<and>
   fmt4 (Exact (- (1 / 131072))) = ''-0.0000'' \<and> fmt4 (Exact (1 / 131072)) = ''0.0000'' \<and>
   rounded4 (latitude ((pokemon_at 0 0)\<lparr>latitude := Minus_zero\<rparr>)) =
     rounded4 (latitude (pokemon_at 0 0)) \<and>
   inspect [pokemon_at 0 0] ((pokemon_at 0 0)\<lparr>latitude := Minus_zero\<rparr>) =
     [pokemon_at 0 0, (pokemon_at 0 0)\<lparr>latitude := Minus_zero\<rparr>]"
proof -
  note r = rounded4_small and k = key4_small
  have f: "fmt4 (Exact (- (1 / 131072))) = ''-0.0000''" "fmt4 (Exact (1 / 131072)) = ''0.0000''"
    using k by (simp_all add: key4_def fmt4_def Let_def str_nat.simps digit_char_def)
  have i: "inspect [pokemon_at (1 / 131072) 0] (pokemon_at (- (1 / 131072)) 0) =
     [pokemon_at (1 / 131072) 0, pokemon_at (- (1 / 131072)) 0]"
    "inspect [pokemon_at 0 0] ((pokemon_at 0 0)\<lparr>latitude := Minus_zero\<rparr>) =
     [pokemon_at 0 0, (pokemon_at 0 0)\<lparr>latitude := Minus_zero\<rparr>]"
    using k by (simp_all add: inspect_def same_spot_key4 pokemon_at_def)
  show ?thesis using r f i by (simp add: pokemon_at_def)
qed

text \<open>
  Claim C10, amended. \<^verbatim>\<open>inspect\<close> of a target whose latitude and longitude, rounded to 4
  decimal places, equal those of an entry of the ledger and carry the same sign bits as that
  entry's leaves the ledger as it is: nothing is appended and nothing is dropped. This is
  the only case in which the ledger stays as it is, it is the case in which the printed
  texts of both coordinates agree, and a second \<^verbatim>\<open>inspect\<close> of the same target changes
  nothing.
\<close>

theorem inspect_idempotent:
  "((\<exists>c \<in> set cs. rounded4 (latitude p) = rounded4 (latitude c) \<and>
                   signbit (latitude p) = signbit (latitude c) \<and>
                   rounded4 (longitude p) = rounded4 (longitude c) \<and>
                   signbit (longitude p) = signbit (longitude c)) \<longrightarrow>
      inspect cs p = cs) \<and>
   (inspect cs p = cs \<longrightarrow>
      (\<exists>c \<in> set cs. fmt4 (latitude p) = fmt4 (latitude c) \<and>
                    fmt4 (longitude p) = fmt4 (longitude c))) \<and>
   (fmt4 x = fmt4 y \<longleftrightarrow> rounded4 x = rounded4 y \<and> signbit x = signbit y) \<and>
   inspect (inspect cs p) p = inspect cs p"
proof (intro conjI)
  show "(\<exists>c \<in> set cs. rounded4 (latitude p) = rounded4 (latitude c) \<and>
                   signbit (latitude p) = signbit (latitude c) \<and>
                   rounded4 (longitude p) = rounded4 (longitude c) \<and>
                   signbit (longitude p) = signbit (longitude c)) \<longrightarrow>
      inspect cs p = cs"
    using inspect_fixed [of cs p] is_inspected_rounded4 [of cs p] by blast
  show "inspect cs p = cs \<longrightarrow>
      (\<exists>c \<in> set cs. fmt4 (latitude p) = fmt4 (latitude c) \<and>
                    fmt4 (longitude p) = fmt4 (longitude c))"
    using inspect_fixed [of cs p] by (auto simp: is_inspected_iff same_spot_def)
  show "fmt4 x = fmt4 y \<longleftrightarrow> rounded4 x = rounded4 y \<and> signbit x = signbit y"
    by (rule fmt4_eq_rounded4)
  have "is_inspected (inspect cs p) p" by (rule is_inspected_inspect)
  then show "inspect (inspect cs p) p = inspect cs p"
    by (simp add: inspect_def [of "inspect cs p"])
qed

theorem inspect_idempotent_witness:
  "(\<exists>c \<in> set [pokemon_at (151 / 4) (- (245 / 2))].
      rounded4 (latitude (pokemon_at (151 / 4 + 1 / 65536) (- (245 / 2) - 1 / 65536))) =
        rounded4 (latitude c) \<and>
      signbit (latitude (pokemon_at (151 / 4 + 1 / 65536) (- (245 / 2) - 1 / 65536))) =
        signbit (latitude c) \<and>
      rounded4 (longitude (pokemon_at (151 / 4 + 1 / 65536) (- (245 / 2) - 1 / 65536))) =
        rounded4 (longitude c) \<and>
      signbit (longitude (pokemon_at (151 / 4 + 1 / 65536) (- (245 / 2) - 1 / 65536))) =
        signbit (longitude c)) \<and>
   inspect [pokemon_at (151 / 4) (- (245 / 2))]
     (pokemon_at (151 / 4 + 1 / 65536) (- (245 / 2) - 1 / 65536)) =
     [pokemon_at (151 / 4) (- (245 / 2))]"
proof -
  have "is_inspected [pokemon_at (151 / 4) (- (245 / 2))]
          (pokemon_at (151 / 4 + 1 / 65536) (- (245 / 2) - 1 / 65536))"
    by (simp add: same_spot_key4 pokemon_at_def key4_eval)
  then have m: "\<exists>c \<in> set [pokemon_at (151 / 4) (- (245 / 2))].
      rounded4 (latitude (pokemon_at (151 / 4 + 1 / 65536) (- (245 / 2) - 1 / 65536))) =
        rounded4 (latitude c) \<and>
      signbit (latitude (pokemon_at (151 / 4 + 1 / 65536) (- (245 / 2) - 1 / 65536))) =
        signbit (latitude c) \<and>
      rounded4 (longitude (pokemon_at (151 / 4 + 1 / 65536) (- (245 / 2) - 1 / 65536))) =
        rounded4 (longitude c) \<and>
      signbit (longitude (pokemon_at (151 / 4 + 1 / 65536) (- (245 / 2) - 1 / 65536))) =
        signbit (longitude c)"
    by (simp only: is_inspected_rounded4)
  then show ?thesis
    using inspect_idempotent
      [of "[pokemon_at (151 / 4) (- (245 / 2))]"
          "pokemon_at (151 / 4 + 1 / 65536) (- (245 / 2) - 1 / 65536)", THEN conjunct1]
    by blast
qed

section \<open>Properties of the Candidate Filter\<close>

lemma feed_loop_mem:
  "feed_loop item ss = Inr (evs, out) \<Longrightarrow> p \<in> set out \<Longrightarrow>
     \<exists>s \<in> set ss. \<exists>ev. item s = Inr (ev, Some p)"
proof (induction ss arbitrary: evs out)
  case Nil
  then show ?case by simp
next
  case (Cons s ss)
  then show ?case
    by (auto split: sum.splits option.splits prod.splits)
qed

lemma feed_loop_kept:
  "feed_loop item ss = Inr (evs, out) \<Longrightarrow> s \<in> set ss \<Longrightarrow> item s = Inr (ev, Some p) \<Longrightarrow>
     p \<in> set out"
proof (induction ss arbitrary: evs out)
  case Nil
  then show ?case by simp
next
  case (Cons a ss)
  then show ?case
    by (auto split: sum.splits option.splits prod.splits)
qed

lemma is_inspected_place:
  "latitude p = latitude q \<Longrightarrow> longitude p = longitude q \<Longrightarrow>
     is_inspected cs p = is_inspected cs q"
  by (simp add: is_inspected_iff same_spot_def)

lemma social_item_SomeD:
  assumes "social_item cfg b cs pos now names s = Inr (ev, Some p)"
  shows "latitude p = s_latitude s \<and> longitude p = s_longitude s \<and>
         pokemon_id p = s_pokemon_id s \<and>
         catch cfg (name p) \<noteq> None \<and> \<not> is_inspected cs p \<and>
         dist p = distance b (pos0 pos) (pos1 pos) (fval (latitude p)) (fval (longitude p)) \<and>
         dist p \<le> get_or (max_sniping_distance cfg) 10000"
proof -
  obtain nm where nm: "py_index names (s_pokemon_id s - 1) = Inr nm"
    using assms by (auto simp: social_item_def split: sum.splits)
  define p0 where "p0 = \<lparr>pokemon_id = s_pokemon_id s, latitude = s_latitude s,
                   longitude = s_longitude s, encounter_id = s_encounter_id s,
                   spawn_point_id = s_spawn_point_id s, spawnpoint_id = None,
                   disappear_time = s_expiration_timestamp_ms s div 1000, name = nm,
                   is_vip = (nm \<in> set (vips b)), priority = 0, dist = 0, iv = None\<rparr>"
  define p1 where "p1 = p0\<lparr>priority := get_or (catch cfg nm) 0,
     dist := distance b (pos0 pos) (pos1 pos) (fval (s_latitude s)) (fval (s_longitude s))\<rparr>"
  have a: "catch cfg nm \<noteq> None" "\<not> is_inspected cs p0" "p = p1"
    "\<not> dist p1 > get_or (max_sniping_distance cfg) 10000"
    using assms nm unfolding social_item_def p0_def p1_def
    by (auto simp: Let_def and_then_def split: sum.splits if_splits bool.splits)
  have "is_inspected cs p1 = is_inspected cs p0"
    by (rule is_inspected_place) (simp_all add: p1_def)
  with a show ?thesis by (simp add: p1_def p0_def)
qed

lemma url_item_SomeD:
  assumes "url_item cfg b cs pos now names u = Inr (ev, Some p)"
  shows "latitude p = u_latitude u \<and> longitude p = u_longitude u \<and>
         pokemon_id p = u_pokemon_id u \<and>
         (catch cfg (name p) \<noteq> None \<or> is_vip p) \<and> \<not> is_inspected cs p \<and>
         dist p = distance b (pos0 pos) (pos1 pos) (fval (latitude p)) (fval (longitude p)) \<and>
         (\<exists>m. max_sniping_distance cfg = Some m \<and> (cfg_snipe cfg = Some True \<longrightarrow> dist p \<le> m)) \<and>
         spawnpoint_id p \<noteq> None"
proof -
  obtain p0 where p0: "parse_url b names u = Some p0"
    using assms by (auto simp: url_item_def split: option.splits)
  have f: "latitude p0 = u_latitude u" "longitude p0 = u_longitude u"
    "pokemon_id p0 = u_pokemon_id u" "spawnpoint_id p0 \<noteq> None"
    using p0 by (auto simp: parse_url_def split: option.splits sum.splits)
  define p1 where "p1 = p0\<lparr>priority := get_or (catch cfg (name p0)) 0,
     dist := distance b (pos0 pos) (pos1 pos) (fval (latitude p0)) (fval (longitude p0))\<rparr>"
  have a: "catch cfg (name p0) \<noteq> None \<or> is_vip p0" "\<not> is_inspected cs p0" "p = p1"
    "\<exists>m. max_sniping_distance cfg = Some m \<and> (cfg_snipe cfg = Some True \<longrightarrow> dist p1 \<le> m)"
    using assms p0 unfolding url_item_def p1_def
    by (auto simp: Let_def and_then_def index_key_def not_key_def
        split: sum.splits if_splits bool.splits option.splits)
  have "is_inspected cs p1 = is_inspected cs p0"
    by (rule is_inspected_place) (simp_all add: p1_def)
  with a f show ?thesis by (simp add: p1_def)
qed

lemma get_pokemon_from_social_mem:
  assumes "get_pokemon_from_social cfg b w st = Inr (out, st')" and "p \<in> set out"
  shows "\<exists>feed. mqtt_pokemon_list st = Some feed \<and>
    (\<exists>s \<in> set feed. \<exists>ev.
       social_item cfg b (caught st) (position st) (time_now w) (pokemon_data st) s =
         Inr (ev, Some p))"
  using assms unfolding get_pokemon_from_social_def
  by (auto split: option.splits if_splits sum.splits dest: feed_loop_mem)

lemma get_pokemon_from_url_mem:
  assumes "get_pokemon_from_url cfg b w st = Inr (out, st')" and "p \<in> set out"
  shows "\<exists>feed. http_get w (address cfg) = Json (Some feed) \<and>
    (\<exists>u \<in> set feed. \<exists>ev.
       url_item cfg b (caught st) (position st) (time_now w) (pokemon_data st) u =
         Inr (ev, Some p))"
  using assms unfolding get_pokemon_from_url_def
  by (auto simp: Let_def index_key_def effect_def emit_event_def
      split: http_reply.splits option.splits if_splits sum.splits dest: feed_loop_mem)


lemmas demo_defs = demo_bot_def demo_config_def demo_world_def demo_task_def url_at_def
  social_at_def flat_distance_def

lemmas filter_defs = get_pokemon_from_url_def get_pokemon_from_social_def url_item_def
  social_item_def parse_url_def parse_encounter_id_def raw_ident_def py_index_def
  and_then_def index_key_def not_key_def get_or_def debug_events_def effect_def
  emit_event_def pos0_def pos1_def Let_def

text \<open>
  Claim C1 says a sighting farther than the maximum sniping distance is left out in both
  feed modes whatever the sniping toggle. The pull filter tests the distance only together
  with the toggle (line 203: \<^verbatim>\<open>dist > max_sniping_distance and snipe\<close>): with sniping
  off, a sighting 390.625 m away passes a maximum sniping distance of 100 m (the maximum
  walking distance being 1000 m) and is returned.
\<close>

theorem max_sniping_distance_counterexample:
  "get_pokemon_from_url demo_config demo_bot (demo_world [url_at 1 (1 / 256) 0]) demo_task =
     Inr ([\<lparr>pokemon_id = 1, latitude = Exact (1 / 256), longitude = Exact 0, encounter_id = Blank,
             spawn_point_id = Blank, spawnpoint_id = Some Blank, disappear_time = 2000,
             name = ''Bulbasaur'', is_vip = False, priority = 5, dist = 3125 / 8,
             iv = Some 0\<rparr>],
          demo_task\<lparr>trace := [Http_get ''http://localhost:5000/raw_data'']\<rparr>) \<and>
   max_sniping_distance demo_config = Some 100 \<and> cfg_snipe demo_config = Some False \<and>
   distance demo_bot (pos0 (position demo_task)) (pos1 (position demo_task))
     (fval (u_latitude (url_at 1 (1 / 256) 0))) (fval (u_longitude (url_at 1 (1 / 256) 0))) = 3125 / 8"
  by (simp add: demo_defs filter_defs)


text \<open>
  Claim C1 as amended. In push mode a sighting farther than the maximum sniping distance
  (10000 where the key is missing) is left out whatever the sniping toggle; in pull mode it
  is left out when the sniping toggle is on. Both for the loop body on one sighting and for
  the returned list, whose candidates carry the distance from the trainer's position.
\<close>

theorem max_sniping_distance_filter:
  "(distance b (pos0 pos) (pos1 pos) (fval (s_latitude s)) (fval (s_longitude s)) >
      get_or (max_sniping_distance cfg) 10000 \<longrightarrow>
    social_item cfg b cs pos now names s \<noteq> Inr (ev, Some p)) \<and>
   (get_pokemon_from_social cfg b w st = Inr (out, st') \<and> p \<in> set out \<longrightarrow>
      dist p = distance b (pos0 (position st)) (pos1 (position st)) (fval (latitude p)) (fval (longitude p)) \<and>
      dist p \<le> get_or (max_sniping_distance cfg) 10000) \<and>
   (cfg_snipe cfg = Some True \<and> max_sniping_distance cfg = Some m \<and>
    distance b (pos0 pos) (pos1 pos) (fval (u_latitude u)) (fval (u_longitude u)) > m \<longrightarrow>
    url_item cfg b cs pos now names u \<noteq> Inr (ev, Some p)) \<and>
   (get_pokemon_from_url cfg b w st = Inr (out, st') \<and> p \<in> set out \<and> cfg_snipe cfg = Some True \<longrightarrow>
      dist p = distance b (pos0 (position st)) (pos1 (position st)) (fval (latitude p)) (fval (longitude p)) \<and>
      (\<exists>m. max_sniping_distance cfg = Some m \<and> dist p \<le> m))"
proof (intro conjI impI)
  assume far: "distance b (pos0 pos) (pos1 pos) (fval (s_latitude s)) (fval (s_longitude s)) >
      get_or (max_sniping_distance cfg) 10000"
  show "social_item cfg b cs pos now names s \<noteq> Inr (ev, Some p)"
  proof
    assume "social_item cfg b cs pos now names s = Inr (ev, Some p)"
    from social_item_SomeD [OF this] far show False by (elim conjE) simp
  qed
next
  assume a: "get_pokemon_from_social cfg b w st = Inr (out, st') \<and> p \<in> set out"
  then obtain s ev where
    "social_item cfg b (caught st) (position st) (time_now w) (pokemon_data st) s =
       Inr (ev, Some p)"
    using get_pokemon_from_social_mem by blast
  then show "dist p = distance b (pos0 (position st)) (pos1 (position st)) (fval (latitude p)) (fval (longitude p))"
    and "dist p \<le> get_or (max_sniping_distance cfg) 10000"
    using social_item_SomeD by blast+
next
  assume far: "cfg_snipe cfg = Some True \<and> max_sniping_distance cfg = Some m \<and>
    distance b (pos0 pos) (pos1 pos) (fval (u_latitude u)) (fval (u_longitude u)) > m"
  show "url_item cfg b cs pos now names u \<noteq> Inr (ev, Some p)"
  proof
    assume "url_item cfg b cs pos now names u = Inr (ev, Some p)"
    from url_item_SomeD [OF this] far show False by auto
  qed
next
  assume a: "get_pokemon_from_url cfg b w st = Inr (out, st') \<and> p \<in> set out \<and> cfg_snipe cfg = Some True"
  then obtain u ev where
    "url_item cfg b (caught st) (position st) (time_now w) (pokemon_data st) u =
       Inr (ev, Some p)"
    using get_pokemon_from_url_mem by blast
  then show "dist p = distance b (pos0 (position st)) (pos1 (position st)) (fval (latitude p)) (fval (longitude p))"
    and "\<exists>m. max_sniping_distance cfg = Some m \<and> dist p \<le> m"
    using url_item_SomeD a by blast+
qed

theorem max_sniping_distance_filter_witness:
  "distance demo_bot (pos0 (0, 0, 0)) (pos1 (0, 0, 0)) (fval (s_latitude (social_at 1 (1 / 256) 0)))
      (fval (s_longitude (social_at 1 (1 / 256) 0))) >
     get_or (max_sniping_distance demo_config) 10000 \<and>
   get_pokemon_from_social demo_config demo_bot (demo_world [])
      (demo_task\<lparr>mqtt_pokemon_list :=
         Some [social_at 1 (1 / 256) 0, social_at 1 (1 / 2048) 0]\<rparr>) =
     Inr ([near_bulbasaur], demo_task\<lparr>mqtt_pokemon_list := Some []\<rparr>) \<and>
   dist near_bulbasaur \<le> get_or (max_sniping_distance demo_config) 10000 \<and>
   cfg_snipe (demo_config\<lparr>cfg_snipe := Some True\<rparr>) = Some True \<and>
   get_pokemon_from_url (demo_config\<lparr>cfg_snipe := Some True\<rparr>) demo_bot
      (demo_world [url_at 1 (1 / 256) 0, url_at 1 (1 / 2048) 0]) demo_task =
     Inr ([near_bulbasaur\<lparr>encounter_id := Blank, spawn_point_id := Blank,
             spawnpoint_id := Some Blank, iv := Some 0\<rparr>],
          demo_task\<lparr>trace := [Http_get ''http://localhost:5000/raw_data'']\<rparr>)"
proof -
  have push: "get_pokemon_from_social demo_config demo_bot (demo_world [])
      (demo_task\<lparr>mqtt_pokemon_list :=
         Some [social_at 1 (1 / 256) 0, social_at 1 (1 / 2048) 0]\<rparr>) =
     Inr ([near_bulbasaur], demo_task\<lparr>mqtt_pokemon_list := Some []\<rparr>)"
    by (simp add: demo_defs filter_defs near_bulbasaur_def)
  have pull: "get_pokemon_from_url (demo_config\<lparr>cfg_snipe := Some True\<rparr>) demo_bot
      (demo_world [url_at 1 (1 / 256) 0, url_at 1 (1 / 2048) 0]) demo_task =
     Inr ([near_bulbasaur\<lparr>encounter_id := Blank, spawn_point_id := Blank,
             spawnpoint_id := Some Blank, iv := Some 0\<rparr>],
          demo_task\<lparr>trace := [Http_get ''http://localhost:5000/raw_data'']\<rparr>)"
    by (simp add: demo_defs filter_defs near_bulbasaur_def)
  have far: "distance demo_bot (pos0 (0, 0, 0)) (pos1 (0, 0, 0))
      (fval (s_latitude (social_at 1 (1 / 256) 0))) (fval (s_longitude (social_at 1 (1 / 256) 0))) >
     get_or (max_sniping_distance demo_config) 10000"
    by (simp add: demo_defs filter_defs)
  have "dist near_bulbasaur \<le> get_or (max_sniping_distance demo_config) 10000"
    using push
      max_sniping_distance_filter [where cfg = demo_config and b = demo_bot
        and w = "demo_world []" and p = near_bulbasaur and out = "[near_bulbasaur]"
        and st = "demo_task\<lparr>mqtt_pokemon_list :=
           Some [social_at 1 (1 / 256) 0, social_at 1 (1 / 2048) 0]\<rparr>"
        and st' = "demo_task\<lparr>mqtt_pokemon_list := Some []\<rparr>",
        THEN conjunct2, THEN conjunct1]
    by simp
  with push pull far show ?thesis by simp
qed

text \<open>
  Claim C7, as the specification words it, fails, for the reason that Claim C10 fails: the
  filter asks \<^verbatim>\<open>is_inspected\<close>, which compares printed texts. With an entry at latitude
  \<open>1 / 131072\<close> in the ledger, a sighting of an allow-listed species at latitude
  \<open>- (1 / 131072)\<close>, 0.76 m from the trainer, has the entry's coordinates once rounded to 4
  decimal places, and both feed modes return it. So does the pull mode for a sighting at
  \<^verbatim>\<open>-0.0\<close> with an entry at \<^verbatim>\<open>0.0\<close>.
\<close>

theorem inspected_rounding_counterexample:
  "rounded4 (u_latitude (url_at 1 (- (1 / 131072)) 0)) =
     rounded4 (latitude (pokemon_at (1 / 131072) 0)) \<and>
   rounded4 (u_longitude (url_at 1 (- (1 / 131072)) 0)) =
     rounded4 (longitude (pokemon_at (1 / 131072) 0)) \<and>
   get_pokemon_from_url demo_config demo_bot (demo_world [url_at 1 (- (1 / 131072)) 0])
      (demo_task\<lparr>caught := [pokemon_at (1 / 131072) 0]\<rparr>) =
     Inr ([\<lparr>pokemon_id = 1, latitude = Exact (- (1 / 131072)), longitude = Exact 0,
             encounter_id = Blank, spawn_point_id = Blank, spawnpoint_id = Some Blank,
             disappear_time = 2000, name = ''Bulbasaur'', is_vip = False, priority = 5,
             dist = 3125 / 4096, iv = Some 0\<rparr>],
          demo_task\<lparr>caught := [pokemon_at (1 / 131072) 0],
                     trace := [Http_get ''http://localhost:5000/raw_data'']\<rparr>) \<and>
   rounded4 (s_latitude (social_at 1 (- (1 / 131072)) 0)) =
     rounded4 (latitude (pokemon_at (1 / 131072) 0)) \<and>
   rounded4 (s_longitude (social_at 1 (- (1 / 131072)) 0)) =
     rounded4 (longitude (pokemon_at (1 / 131072) 0)) \<and>
   get_pokemon_from_social demo_config demo_bot (demo_world [])
      (demo_task\<lparr>caught := [pokemon_at (1 / 131072) 0],
                 mqtt_pokemon_list := Some [social_at 1 (- (1 / 131072)) 0]\<rparr>) =
     Inr ([\<lparr>pokemon_id = 1, latitude = Exact (- (1 / 131072)), longitude = Exact 0,
             encounter_id = Num 7, spawn_point_id = Str ''sp'', spawnpoint_id = None,
             disappear_time = 2000, name = ''Bulbasaur'', is_vip = False, priority = 5,
             dist = 3125 / 4096, iv = None\<rparr>],
          demo_task\<lparr>caught := [pokemon_at (1 / 131072) 0], mqtt_pokemon_list := Some []\<rparr>) \<and>
   rounded4 (u_latitude ((url_at 1 0 0)\<lparr>u_latitude := Minus_zero\<rparr>)) =
     rounded4 (latitude (pokemon_at 0 0)) \<and>
   rounded4 (u_longitude ((url_at 1 0 0)\<lparr>u_latitude := Minus_zero\<rparr>)) =
     rounded4 (longitude (pokemon_at 0 0)) \<and>
   get_pokemon_from_url demo_config demo_bot
      (demo_world [(url_at 1 0 0)\<lparr>u_latitude := Minus_zero\<rparr>])
      (demo_task\<lparr>caught := [pokemon_at 0 0]\<rparr>) =
     Inr ([\<lparr>pokemon_id = 1, latitude = Minus_zero, longitude = Exact 0,
             encounter_id = Blank, spawn_point_id = Blank, spawnpoint_id = Some Blank,
             disappear_time = 2000, name = ''Bulbasaur'', is_vip = False, priority = 5,
             dist = 0, iv = Some 0\<rparr>],
          demo_task\<lparr>caught := [pokemon_at 0 0],
                     trace := [Http_get ''http://localhost:5000/raw_data'']\<rparr>)"
proof -
  note r = rounded4_small and k = key4_small
  have pull: "get_pokemon_from_url demo_config demo_bot (demo_world [url_at 1 (- (1 / 131072)) 0])
      (demo_task\<lparr>caught := [pokemon_at (1 / 131072) 0]\<rparr>) =
     Inr ([\<lparr>pokemon_id = 1, latitude = Exact (- (1 / 131072)), longitude = Exact 0,
             encounter_id = Blank, spawn_point_id = Blank, spawnpoint_id = Some Blank,
             disappear_time = 2000, name = ''Bulbasaur'', is_vip = False, priority = 5,
             dist = 3125 / 4096, iv = Some 0\<rparr>],
          demo_task\<lparr>caught := [pokemon_at (1 / 131072) 0],
                     trace := [Http_get ''http://localhost:5000/raw_data'']\<rparr>)"
    using k by (simp add: demo_defs filter_defs pokemon_at_def same_spot_key4)
  have push: "get_pokemon_from_social demo_config demo_bot (demo_world [])
      (demo_task\<lparr>caught := [pokemon_at (1 / 131072) 0],
                 mqtt_pokemon_list := Some [social_at 1 (- (1 / 131072)) 0]\<rparr>) =
     Inr ([\<lparr>pokemon_id = 1, latitude = Exact (- (1 / 131072)), longitude = Exact 0,
             encounter_id = Num 7, spawn_point_id = Str ''sp'', spawnpoint_id = None,
             disappear_time = 2000, name = ''Bulbasaur'', is_vip = False, priority = 5,
             dist = 3125 / 4096, iv = None\<rparr>],
          demo_task\<lparr>caught := [pokemon_at (1 / 131072) 0], mqtt_pokemon_list := Some []\<rparr>)"
    using k by (simp add: demo_defs filter_defs pokemon_at_def same_spot_key4)
  have zero: "get_pokemon_from_url demo_config demo_bot
      (demo_world [(url_at 1 0 0)\<lparr>u_latitude := Minus_zero\<rparr>])
      (demo_task\<lparr>caught := [pokemon_at 0 0]\<rparr>) =
     Inr ([\<lparr>pokemon_id = 1, latitude = Minus_zero, longitude = Exact 0,
             encounter_id = Blank, spawn_point_id = Blank, spawnpoint_id = Some Blank,
             disappear_time = 2000, name = ''Bulbasaur'', is_vip = False, priority = 5,
             dist = 0, iv = Some 0\<rparr>],
          demo_task\<lparr>caught := [pokemon_at 0 0],
                     trace := [Http_get ''http://localhost:5000/raw_data'']\<rparr>)"
    using k by (simp add: demo_defs filter_defs pokemon_at_def same_spot_key4)
  have rs: "rounded4 (u_latitude (url_at 1 (- (1 / 131072)) 0)) =
     rounded4 (latitude (pokemon_at (1 / 131072) 0))"
    "rounded4 (u_longitude (url_at 1 (- (1 / 131072)) 0)) =
     rounded4 (longitude (pokemon_at (1 / 131072) 0))"
    "rounded4 (s_latitude (social_at 1 (- (1 / 131072)) 0)) =
     rounded4 (latitude (pokemon_at (1 / 131072) 0))"
    "rounded4 (s_longitude (social_at 1 (- (1 / 131072)) 0)) =
     rounded4 (longitude (pokemon_at (1 / 131072) 0))"
    "rounded4 (u_latitude ((url_at 1 0 0)\<lparr>u_latitude := Minus_zero\<rparr>)) =
     rounded4 (latitude (pokemon_at 0 0))"
    "rounded4 (u_longitude ((url_at 1 0 0)\<lparr>u_latitude := Minus_zero\<rparr>)) =
     rounded4 (longitude (pokemon_at 0 0))"
    using r by (simp_all add: url_at_def social_at_def pokemon_at_def)
  show ?thesis by (intro conjI rs pull push zero)
qed

text \<open>
  Claim C7, amended. A sighting whose latitude and longitude, each rounded to 4 decimal
  places, equal those of an entry of the ledger and carry the same sign bits as that
  entry's is left out by the filter in both feed modes: the loop body never appends it, and
  no returned candidate matches an entry of the ledger in this way. This match is the one
  that \<^verbatim>\<open>is_inspected\<close> computes from the printed texts.
\<close>

theorem inspected_sighting_excluded:
  "((\<exists>c \<in> set cs. rounded4 (s_latitude s) = rounded4 (latitude c) \<and>
                   signbit (s_latitude s) = signbit (latitude c) \<and>
                   rounded4 (s_longitude s) = rounded4 (longitude c) \<and>
                   signbit (s_longitude s) = signbit (longitude c)) \<longrightarrow>
    social_item cfg b cs pos now names s \<noteq> Inr (ev, Some p)) \<and>
   ((\<exists>c \<in> set cs. rounded4 (u_latitude u) = rounded4 (latitude c) \<and>
                   signbit (u_latitude u) = signbit (latitude c) \<and>
                   rounded4 (u_longitude u) = rounded4 (longitude c) \<and>
                   signbit (u_longitude u) = signbit (longitude c)) \<longrightarrow>
    url_item cfg b cs pos now names u \<noteq> Inr (ev, Some p)) \<and>
   (get_pokemon_from_social cfg b w st = Inr (out, st') \<and> p \<in> set out \<longrightarrow>
      \<not> is_inspected (caught st) p) \<and>
   (get_pokemon_from_url cfg b w st = Inr (out, st') \<and> p \<in> set out \<longrightarrow>
      \<not> is_inspected (caught st) p) \<and>
   (is_inspected cs q \<longleftrightarrow>
      (\<exists>c \<in> set cs. rounded4 (latitude q) = rounded4 (latitude c) \<and>
                    signbit (latitude q) = signbit (latitude c) \<and>
                    rounded4 (longitude q) = rounded4 (longitude c) \<and>
                    signbit (longitude q) = signbit (longitude c)))"
proof (intro conjI impI)
  assume m: "\<exists>c \<in> set cs. rounded4 (s_latitude s) = rounded4 (latitude c) \<and>
                   signbit (s_latitude s) = signbit (latitude c) \<and>
                   rounded4 (s_longitude s) = rounded4 (longitude c) \<and>
                   signbit (s_longitude s) = signbit (longitude c)"
  show "social_item cfg b cs pos now names s \<noteq> Inr (ev, Some p)"
  proof
    assume "social_item cfg b cs pos now names s = Inr (ev, Some p)"
    from social_item_SomeD [OF this] m show False
      by (auto simp: is_inspected_rounded4)
  qed
next
  assume m: "\<exists>c \<in> set cs. rounded4 (u_latitude u) = rounded4 (latitude c) \<and>
                   signbit (u_latitude u) = signbit (latitude c) \<and>
                   rounded4 (u_longitude u) = rounded4 (longitude c) \<and>
                   signbit (u_longitude u) = signbit (longitude c)"
  show "url_item cfg b cs pos now names u \<noteq> Inr (ev, Some p)"
  proof
    assume "url_item cfg b cs pos now names u = Inr (ev, Some p)"
    from url_item_SomeD [OF this] m show False
      by (auto simp: is_inspected_rounded4)
  qed
next
  assume "get_pokemon_from_social cfg b w st = Inr (out, st') \<and> p \<in> set out"
  then show "\<not> is_inspected (caught st) p"
    using get_pokemon_from_social_mem social_item_SomeD by blast
next
  assume "get_pokemon_from_url cfg b w st = Inr (out, st') \<and> p \<in> set out"
  then show "\<not> is_inspected (caught st) p"
    using get_pokemon_from_url_mem url_item_SomeD by blast
next
  show "is_inspected cs q \<longleftrightarrow>
      (\<exists>c \<in> set cs. rounded4 (latitude q) = rounded4 (latitude c) \<and>
                    signbit (latitude q) = signbit (latitude c) \<and>
                    rounded4 (longitude q) = rounded4 (longitude c) \<and>
                    signbit (longitude q) = signbit (longitude c))"
    by (rule is_inspected_rounded4)
qed

theorem inspected_sighting_excluded_witness:
  "(\<exists>c \<in> set [seen_place].
      rounded4 (s_latitude (social_at 1 (257 / 1048576) 0)) = rounded4 (latitude c) \<and>
      signbit (s_latitude (social_at 1 (257 / 1048576) 0)) = signbit (latitude c) \<and>
      rounded4 (s_longitude (social_at 1 (257 / 1048576) 0)) = rounded4 (longitude c) \<and>
      signbit (s_longitude (social_at 1 (257 / 1048576) 0)) = signbit (longitude c)) \<and>
   get_pokemon_from_social demo_config demo_bot (demo_world [])
      (demo_task\<lparr>caught := [seen_place], mqtt_pokemon_list :=
         Some [social_at 1 (257 / 1048576) 0, social_at 1 (1 / 2048) 0]\<rparr>) =
     Inr ([near_bulbasaur], demo_task\<lparr>caught := [seen_place], mqtt_pokemon_list := Some []\<rparr>) \<and>
   get_pokemon_from_url demo_config demo_bot
      (demo_world [url_at 1 (257 / 1048576) 0, url_at 1 (1 / 2048) 0])
      (demo_task\<lparr>caught := [seen_place]\<rparr>) =
     Inr ([near_bulbasaur\<lparr>encounter_id := Blank, spawn_point_id := Blank,
             spawnpoint_id := Some Blank, iv := Some 0\<rparr>],
          demo_task\<lparr>caught := [seen_place],
                     trace := [Http_get ''http://localhost:5000/raw_data'']\<rparr>) \<and>
   \<not> is_inspected [seen_place] near_bulbasaur \<and>
   social_item demo_config demo_bot [seen_place] (0, 0, 0) 1000
      [''Bulbasaur'', ''Ivysaur'', ''Venusaur''] (social_at 1 (257 / 1048576) 0) \<noteq>
     Inr ([], Some near_bulbasaur)"
proof -
  have m: "\<exists>c \<in> set [seen_place].
      rounded4 (s_latitude (social_at 1 (257 / 1048576) 0)) = rounded4 (latitude c) \<and>
      signbit (s_latitude (social_at 1 (257 / 1048576) 0)) = signbit (latitude c) \<and>
      rounded4 (s_longitude (social_at 1 (257 / 1048576) 0)) = rounded4 (longitude c) \<and>
      signbit (s_longitude (social_at 1 (257 / 1048576) 0)) = signbit (longitude c)"
    by (simp add: seen_place_def pokemon_at_def social_at_def rounded4_def key4_eval)
  have push: "get_pokemon_from_social demo_config demo_bot (demo_world [])
      (demo_task\<lparr>caught := [seen_place], mqtt_pokemon_list :=
         Some [social_at 1 (257 / 1048576) 0, social_at 1 (1 / 2048) 0]\<rparr>) =
     Inr ([near_bulbasaur], demo_task\<lparr>caught := [seen_place], mqtt_pokemon_list := Some []\<rparr>)"
    by (simp add: demo_defs filter_defs near_bulbasaur_def seen_place_def pokemon_at_def
        same_spot_key4 key4_eval)
  have pull: "get_pokemon_from_url demo_config demo_bot
      (demo_world [url_at 1 (257 / 1048576) 0, url_at 1 (1 / 2048) 0])
      (demo_task\<lparr>caught := [seen_place]\<rparr>) =
     Inr ([near_bulbasaur\<lparr>encounter_id := Blank, spawn_point_id := Blank,
             spawnpoint_id := Some Blank, iv := Some 0\<rparr>],
          demo_task\<lparr>caught := [seen_place],
                     trace := [Http_get ''http://localhost:5000/raw_data'']\<rparr>)"
    by (simp add: demo_defs filter_defs near_bulbasaur_def seen_place_def pokemon_at_def
        same_spot_key4 key4_eval)
  have ni: "\<not> is_inspected [seen_place] near_bulbasaur"
    using push
      inspected_sighting_excluded [where cfg = demo_config and b = demo_bot
        and w = "demo_world []" and p = near_bulbasaur and out = "[near_bulbasaur]"
        and st = "demo_task\<lparr>caught := [seen_place], mqtt_pokemon_list :=
           Some [social_at 1 (257 / 1048576) 0, social_at 1 (1 / 2048) 0]\<rparr>"
        and st' = "demo_task\<lparr>caught := [seen_place], mqtt_pokemon_list := Some []\<rparr>",
        THEN conjunct2, THEN conjunct2, THEN conjunct1]
    by simp
  have ex: "social_item demo_config demo_bot [seen_place] (0, 0, 0) 1000
      [''Bulbasaur'', ''Ivysaur'', ''Venusaur''] (social_at 1 (257 / 1048576) 0) \<noteq>
     Inr ([], Some near_bulbasaur)"
    using m
      inspected_sighting_excluded [where cs = "[seen_place]" and cfg = demo_config
        and b = demo_bot and s = "social_at 1 (257 / 1048576) 0" and pos = "(0, 0, 0)"
        and now = 1000 and names = "[''Bulbasaur'', ''Ivysaur'', ''Venusaur'']"
        and ev = "[]" and p = near_bulbasaur, THEN conjunct1]
    by blast
  show ?thesis by (intro conjI m push pull ni ex)
qed

text \<open>
  Claim C6. The allow-list check differs by feed mode. In push mode a sighting whose species
  is not in the allow-list is rejected, VIP or not (the VIP set does not occur in the
  hypothesis), and every returned candidate is allow-listed. In pull mode such a sighting is
  rejected when it is not VIP; when it is VIP it is treated exactly as a species
  allow-listed with weight 0, so it is returned whenever the ledger and distance checks
  let it through.
\<close>

theorem allow_list_by_mode:
  "(py_index names (s_pokemon_id s - 1) = Inr nm \<and> catch cfg nm = None \<longrightarrow>
      social_item cfg b cs pos now names s =
        Inr (debug_events cfg (Ev_fail (Not_catching nm)), None)) \<and>
   (get_pokemon_from_social cfg b w st = Inr (out, st') \<and> p \<in> set out \<longrightarrow>
      catch cfg (name p) \<noteq> None) \<and>
   (parse_url b names u = Some q \<and> catch cfg (name q) = None \<and> \<not> is_vip q \<longrightarrow>
      url_item cfg b cs pos now names u =
        Inr (debug_events cfg (Ev_log (Skipped_not_in_catch (name q))), None)) \<and>
   (parse_url b names u = Some q \<and> catch cfg (name q) = None \<and> is_vip q \<longrightarrow>
      url_item cfg b cs pos now names u =
        url_item (cfg\<lparr>catch := (catch cfg)(name q \<mapsto> 0)\<rparr>) b cs pos now names u) \<and>
   (parse_url b names u = Some q \<and> catch cfg (name q) = None \<and> is_vip q \<and>
    \<not> is_inspected cs q \<and>
    max_sniping_distance cfg = Some ms \<and> max_walking_distance cfg = Some mw \<and>
    cfg_snipe cfg = Some sn \<and>
    d = distance b (pos0 pos) (pos1 pos) (fval (latitude q)) (fval (longitude q)) \<and>
    \<not> (d > ms \<and> sn) \<and> \<not> (d > mw \<and> \<not> sn) \<and>
    \<not> (d > of_int (disappear_time q - now) * ((walk_max b + walk_min b) / 2) \<and> \<not> sn) \<longrightarrow>
      url_item cfg b cs pos now names u = Inr ([], Some (q\<lparr>priority := 0, dist := d\<rparr>)))"
proof (intro conjI impI)
  assume "py_index names (s_pokemon_id s - 1) = Inr nm \<and> catch cfg nm = None"
  then show "social_item cfg b cs pos now names s =
        Inr (debug_events cfg (Ev_fail (Not_catching nm)), None)"
    by (simp add: social_item_def)
next
  assume "get_pokemon_from_social cfg b w st = Inr (out, st') \<and> p \<in> set out"
  then show "catch cfg (name p) \<noteq> None"
    using get_pokemon_from_social_mem social_item_SomeD by blast
next
  assume "parse_url b names u = Some q \<and> catch cfg (name q) = None \<and> \<not> is_vip q"
  then show "url_item cfg b cs pos now names u =
        Inr (debug_events cfg (Ev_log (Skipped_not_in_catch (name q))), None)"
    by (simp add: url_item_def)
next
  assume "parse_url b names u = Some q \<and> catch cfg (name q) = None \<and> is_vip q"
  then show "url_item cfg b cs pos now names u =
        url_item (cfg\<lparr>catch := (catch cfg)(name q \<mapsto> 0)\<rparr>) b cs pos now names u"
    by (auto simp: url_item_def get_or_def debug_events_def Let_def index_key_def not_key_def
        and_then_def split: option.splits bool.splits sum.splits)
next
  assume a: "parse_url b names u = Some q \<and> catch cfg (name q) = None \<and> is_vip q \<and>
    \<not> is_inspected cs q \<and>
    max_sniping_distance cfg = Some ms \<and> max_walking_distance cfg = Some mw \<and>
    cfg_snipe cfg = Some sn \<and>
    d = distance b (pos0 pos) (pos1 pos) (fval (latitude q)) (fval (longitude q)) \<and>
    \<not> (d > ms \<and> sn) \<and> \<not> (d > mw \<and> \<not> sn) \<and>
    \<not> (d > of_int (disappear_time q - now) * ((walk_max b + walk_min b) / 2) \<and> \<not> sn)"
  then show "url_item cfg b cs pos now names u = Inr ([], Some (q\<lparr>priority := 0, dist := d\<rparr>))"
    by (cases sn) (auto simp: url_item_def get_or_def and_then_def index_key_def not_key_def Let_def)
qed

theorem allow_list_by_mode_witness:
  "py_index (pokemon_data demo_task) (s_pokemon_id (social_at 3 (1 / 2048) 0) - 1) =
     Inr ''Venusaur'' \<and>
   catch demo_config ''Venusaur'' = None \<and> ''Venusaur'' \<in> set (vips demo_bot) \<and>
   get_pokemon_from_social demo_config demo_bot (demo_world [])
      (demo_task\<lparr>mqtt_pokemon_list := Some [social_at 3 (1 / 2048) 0]\<rparr>) =
     Inr ([], demo_task\<lparr>mqtt_pokemon_list := Some []\<rparr>) \<and>
   parse_url demo_bot (pokemon_data demo_task) (url_at 3 (1 / 2048) 0) =
     Some (near_venusaur\<lparr>dist := 0\<rparr>) \<and>
   get_pokemon_from_url demo_config demo_bot (demo_world [url_at 3 (1 / 2048) 0]) demo_task =
     Inr ([near_venusaur], demo_task\<lparr>trace := [Http_get ''http://localhost:5000/raw_data'']\<rparr>) \<and>
   url_item demo_config demo_bot [] (0, 0, 0) 1000 (pokemon_data demo_task)
      (url_at 3 (1 / 2048) 0) = Inr ([], Some near_venusaur)"
proof -
  have push: "get_pokemon_from_social demo_config demo_bot (demo_world [])
      (demo_task\<lparr>mqtt_pokemon_list := Some [social_at 3 (1 / 2048) 0]\<rparr>) =
     Inr ([], demo_task\<lparr>mqtt_pokemon_list := Some []\<rparr>)"
    by (simp add: demo_defs filter_defs)
  have pull: "get_pokemon_from_url demo_config demo_bot (demo_world [url_at 3 (1 / 2048) 0])
      demo_task =
     Inr ([near_venusaur], demo_task\<lparr>trace := [Http_get ''http://localhost:5000/raw_data'']\<rparr>)"
    by (simp add: demo_defs filter_defs near_venusaur_def)
  have parse: "parse_url demo_bot (pokemon_data demo_task) (url_at 3 (1 / 2048) 0) =
     Some (near_venusaur\<lparr>dist := 0\<rparr>)"
    by (simp add: demo_defs filter_defs near_venusaur_def)
  have facts: "py_index (pokemon_data demo_task) (s_pokemon_id (social_at 3 (1 / 2048) 0) - 1) =
     Inr ''Venusaur''" "catch demo_config ''Venusaur'' = None"
     "''Venusaur'' \<in> set (vips demo_bot)"
    by (simp_all add: demo_defs filter_defs)
  have "url_item demo_config demo_bot [] (0, 0, 0) 1000 (pokemon_data demo_task)
      (url_at 3 (1 / 2048) 0) = Inr ([], Some (near_venusaur\<lparr>dist := 0\<rparr>\<lparr>priority := 0, dist := 3125 / 64\<rparr>))"
    using parse
      allow_list_by_mode [where cfg = demo_config and b = demo_bot and cs = "[]"
        and pos = "(0, 0, 0)" and now = 1000 and names = "pokemon_data demo_task"
        and u = "url_at 3 (1 / 2048) 0" and q = "near_venusaur\<lparr>dist := 0\<rparr>"
        and ms = 100 and mw = 1000 and sn = False and d = "3125 / 64",
        THEN conjunct2, THEN conjunct2, THEN conjunct2, THEN conjunct2]
    by (simp add: demo_defs filter_defs near_venusaur_def)
  then have "url_item demo_config demo_bot [] (0, 0, 0) 1000 (pokemon_data demo_task)
      (url_at 3 (1 / 2048) 0) = Inr ([], Some near_venusaur)"
    by (simp add: near_venusaur_def)
  with push pull parse facts show ?thesis by simp
qed

section \<open>Properties of the ledger file\<close>

text \<open>
  Claim C2 says that the ledger written by \<^verbatim>\<open>dump_caught_pokemon\<close> is the ledger that
  \<^verbatim>\<open>initialize\<close> reads back. The two functions name different files
  (\<^verbatim>\<open>_base_dir/data/map-caught-USER.json\<close> is written, \<^verbatim>\<open>_base_dir/map-caught-USER.json\<close>
  is read), so what \<^verbatim>\<open>initialize\<close> loads is whatever the second file held before, and the
  empty ledger where there is no such file: a ledger of one entry is written and the
  empty ledger is read back.
\<close>

theorem ledger_file_not_reloaded:
  "caught (initialize cfg b w (dump_caught_pokemon b st)) =
     (case files st [base_dir b, ''map-caught-'' @ username b @ ''.json''] of
        None \<Rightarrow> [] | Some loaded \<Rightarrow> loaded) \<and>
   files (dump_caught_pokemon b st) [base_dir b, ''data'', ''map-caught-'' @ username b @ ''.json'']
     = Some (caught st) \<and>
   caught (initialize demo_config demo_bot (demo_world [])
             (dump_caught_pokemon demo_bot (demo_task\<lparr>caught := [seen_place]\<rparr>))) = []"
  by (simp add: initialize_def dump_caught_pokemon_def Let_def demo_defs)

section \<open>Properties of the Target Selector\<close>

lemma set_insort_reverse: "set (insort_reverse f x ys) = insert x (set ys)"
  by (induction ys) auto

lemma mset_insort_reverse: "mset (insort_reverse f x ys) = add_mset x (mset ys)"
  by (induction ys) auto

lemma sort_reverse_Cons: "sort_reverse f (x # xs) = insort_reverse f x (sort_reverse f xs)"
  by (simp add: sort_reverse_def)

lemma mset_sort_reverse: "mset (sort_reverse f xs) = mset xs"
  by (induction xs) (simp_all add: sort_reverse_def mset_insort_reverse)

lemma set_sort_reverse: "set (sort_reverse f xs) = set xs"
  by (induction xs) (simp_all add: sort_reverse_def set_insort_reverse)

lemma sorted_insort_reverse:
  "sorted_wrt (\<lambda>a c. f a \<ge> f c) ys \<Longrightarrow> sorted_wrt (\<lambda>a c. f a \<ge> f c) (insort_reverse f x ys)"
  by (induction ys) (auto simp: set_insort_reverse)

lemma sorted_sort_reverse: "sorted_wrt (\<lambda>a c. f a \<ge> f c) (sort_reverse f xs)"
  by (induction xs) (simp_all add: sort_reverse_def sorted_insort_reverse)

lemma filter_insort_reverse:
  "sorted_wrt (\<lambda>a c. f a \<ge> f c) ys \<Longrightarrow>
     filter (\<lambda>y. f y = k) (insort_reverse f x ys) =
       (if f x = k then x # filter (\<lambda>y. f y = k) ys else filter (\<lambda>y. f y = k) ys)"
proof (induction ys)
  case Nil
  then show ?case by simp
next
  case (Cons y ys)
  show ?case
  proof (cases "f y \<le> f x")
    case True
    then show ?thesis by simp
  next
    case False
    then have "f x \<noteq> f y" by auto
    moreover have "\<forall>z \<in> set ys. f z \<le> f y" using Cons.prems by auto
    then have "f x = k \<Longrightarrow> f y \<noteq> k" using False by auto
    ultimately show ?thesis using Cons False by auto
  qed
qed

lemma sort_reverse_stable:
  "filter (\<lambda>y. f y = k) (sort_reverse f xs) = filter (\<lambda>y. f y = k) xs"
  by (induction xs)
    (simp_all add: sort_reverse_Cons filter_insort_reverse sorted_sort_reverse,
     simp add: sort_reverse_def)

text \<open>A stable descending sort by \<open>f\<close> of a list that descends in \<open>g\<close> descends in \<open>(f, g)\<close>.\<close>

lemma lex_insort_reverse:
  assumes "sorted_wrt (\<lambda>a c. f a > f c \<or> (f a = f c \<and> g a \<ge> g c)) ys"
    and "\<forall>y \<in> set ys. g x \<ge> g y"
  shows "sorted_wrt (\<lambda>a c. f a > f c \<or> (f a = f c \<and> g a \<ge> g c)) (insort_reverse f x ys)"
  using assms
proof (induction ys)
  case Nil
  then show ?case by simp
next
  case (Cons y ys)
  show ?case
  proof (cases "f y \<le> f x")
    case True
    have "\<forall>z \<in> set ys. f z \<le> f y" using Cons.prems(1) by auto
    then have "\<forall>z \<in> set (y # ys). f z \<le> f x" using True by auto
    then have "\<forall>z \<in> set (y # ys). f x > f z \<or> (f x = f z \<and> g x \<ge> g z)"
      using Cons.prems(2) by (auto simp: less_le)
    then show ?thesis using True Cons.prems(1) by simp
  next
    case False
    then show ?thesis using Cons by (auto simp: set_insort_reverse)
  qed
qed

lemma lex_sort_reverse:
  assumes "sorted_wrt (\<lambda>a c. g a \<ge> g c) xs"
  shows "sorted_wrt (\<lambda>a c. f a > f c \<or> (f a = f c \<and> g a \<ge> g c)) (sort_reverse f xs)"
  using assms
proof (induction xs)
  case Nil
  then show ?case by (simp add: sort_reverse_def)
next
  case (Cons x xs)
  then show ?case
    by (simp add: sort_reverse_Cons lex_insort_reverse set_sort_reverse)
qed


lemma select_targets_mset: "mset (select_targets cfg xs) = mset xs"
  by (simp add: select_targets_def Let_def mset_sort_reverse)

lemma work_picks_head:
  assumes "\<not> balls w < min_ball st"
    and "retrieve cfg b w (dump_caught_pokemon b st) = Inr (Some fetched, st1)"
    and "select_targets cfg fetched \<noteq> []"
  shows "(cfg_snipe cfg = Some False \<longrightarrow>
           work cfg b w st =
             work_walk cfg b w
               (debug_log cfg (How_many (length (select_targets cfg fetched))) st1)
               (hd (select_targets cfg fetched))) \<and>
         (cfg_snipe cfg = Some True \<and> \<not> snipe_high_prio_only st1 \<longrightarrow>
           work cfg b w st =
             map_sum id (\<lambda>(r, s). (Some r, s))
               (snipe cfg b w
                  (debug_log cfg (How_many (length (select_targets cfg fetched))) st1)
                  (hd (select_targets cfg fetched))))"
  using assms
  by (auto simp: work_def Let_def index_key_def debug_log_def emit_event_def effect_def
      split: sum.splits)

text \<open>
  Claim C8. The Target Selector keeps the candidates (it permutes them). In priority mode
  it sorts by descending priority, stably; with VIP prioritization it then sorts by
  descending VIP flag, stably, so with both the list descends in VIP flag first and
  priority second. \<^verbatim>\<open>work\<close> hands the head of that list to the walking part or to
  \<^verbatim>\<open>snipe\<close>. Priorities 5, 20, 1 come out as 20, 5, 1, and when only the candidate of
  priority 1 is VIP it comes out first.
\<close>

theorem target_selection_order:
  "mset (select_targets cfg xs) = mset xs \<and>
   (mode cfg = ''priority'' \<and> \<not> prioritize_vips cfg \<longrightarrow>
      sorted_wrt (\<lambda>a c. priority a \<ge> priority c) (select_targets cfg xs) \<and>
      filter (\<lambda>y. priority y = k) (select_targets cfg xs) = filter (\<lambda>y. priority y = k) xs) \<and>
   (prioritize_vips cfg \<longrightarrow>
      sorted_wrt (\<lambda>a c. is_vip a \<ge> is_vip c) (select_targets cfg xs) \<and>
      filter (\<lambda>y. is_vip y = v) (select_targets cfg xs) =
        filter (\<lambda>y. is_vip y = v)
          (if mode cfg = ''priority'' then sort_reverse priority xs else xs)) \<and>
   (mode cfg = ''priority'' \<and> prioritize_vips cfg \<longrightarrow>
      sorted_wrt (\<lambda>a c. is_vip a > is_vip c \<or> (is_vip a = is_vip c \<and> priority a \<ge> priority c))
        (select_targets cfg xs)) \<and>
   (\<not> balls w < min_ball st \<and>
    retrieve cfg b w (dump_caught_pokemon b st) = Inr (Some xs, st1) \<and>
    select_targets cfg xs \<noteq> [] \<and> cfg_snipe cfg = Some False \<longrightarrow>
      work cfg b w st =
        work_walk cfg b w (debug_log cfg (How_many (length (select_targets cfg xs))) st1)
          (hd (select_targets cfg xs))) \<and>
   (\<not> balls w < min_ball st \<and>
    retrieve cfg b w (dump_caught_pokemon b st) = Inr (Some xs, st1) \<and>
    select_targets cfg xs \<noteq> [] \<and> cfg_snipe cfg = Some True \<and> \<not> snipe_high_prio_only st1 \<longrightarrow>
      work cfg b w st =
        map_sum id (\<lambda>(r, s). (Some r, s))
          (snipe cfg b w (debug_log cfg (How_many (length (select_targets cfg xs))) st1)
             (hd (select_targets cfg xs)))) \<and>
   map priority
     (select_targets (demo_config\<lparr>prioritize_vips := False\<rparr>)
        [ranked 5 False, ranked 20 False, ranked 1 False]) = [20, 5, 1] \<and>
   select_targets demo_config [ranked 5 False, ranked 20 False, ranked 1 True] =
     [ranked 1 True, ranked 20 False, ranked 5 False]"
proof (intro conjI impI)
  show "mset (select_targets cfg xs) = mset xs" by (rule select_targets_mset)
next
  assume "mode cfg = ''priority'' \<and> \<not> prioritize_vips cfg"
  then show "sorted_wrt (\<lambda>a c. priority a \<ge> priority c) (select_targets cfg xs)"
    and "filter (\<lambda>y. priority y = k) (select_targets cfg xs) = filter (\<lambda>y. priority y = k) xs"
    by (simp_all add: select_targets_def sorted_sort_reverse sort_reverse_stable)
next
  assume "prioritize_vips cfg"
  then have eq: "select_targets cfg xs =
      sort_reverse is_vip (if mode cfg = ''priority'' then sort_reverse priority xs else xs)"
    by (simp add: select_targets_def Let_def)
  show "sorted_wrt (\<lambda>a c. is_vip a \<ge> is_vip c) (select_targets cfg xs)"
    unfolding eq by (rule sorted_sort_reverse)
  show "filter (\<lambda>y. is_vip y = v) (select_targets cfg xs) =
        filter (\<lambda>y. is_vip y = v)
          (if mode cfg = ''priority'' then sort_reverse priority xs else xs)"
    unfolding eq by (rule sort_reverse_stable)
next
  assume "mode cfg = ''priority'' \<and> prioritize_vips cfg"
  then have eq: "select_targets cfg xs = sort_reverse is_vip (sort_reverse priority xs)"
    by (simp add: select_targets_def Let_def)
  show "sorted_wrt (\<lambda>a c. is_vip a > is_vip c \<or> (is_vip a = is_vip c \<and> priority a \<ge> priority c))
        (select_targets cfg xs)"
    unfolding eq by (rule lex_sort_reverse) (rule sorted_sort_reverse)
next
  assume "\<not> balls w < min_ball st \<and>
    retrieve cfg b w (dump_caught_pokemon b st) = Inr (Some xs, st1) \<and>
    select_targets cfg xs \<noteq> [] \<and> cfg_snipe cfg = Some False"
  then show "work cfg b w st =
        work_walk cfg b w (debug_log cfg (How_many (length (select_targets cfg xs))) st1)
          (hd (select_targets cfg xs))"
    using work_picks_head by blast
next
  assume "\<not> balls w < min_ball st \<and>
    retrieve cfg b w (dump_caught_pokemon b st) = Inr (Some xs, st1) \<and>
    select_targets cfg xs \<noteq> [] \<and> cfg_snipe cfg = Some True \<and> \<not> snipe_high_prio_only st1"
  then show "work cfg b w st =
        map_sum id (\<lambda>(r, s). (Some r, s))
          (snipe cfg b w (debug_log cfg (How_many (length (select_targets cfg xs))) st1)
             (hd (select_targets cfg xs)))"
    using work_picks_head by blast
next
  show "map priority
     (select_targets (demo_config\<lparr>prioritize_vips := False\<rparr>)
        [ranked 5 False, ranked 20 False, ranked 1 False]) = [20, 5, 1]"
    by (simp add: select_targets_def sort_reverse_def demo_config_def ranked_def)
next
  show "select_targets demo_config [ranked 5 False, ranked 20 False, ranked 1 True] =
     [ranked 1 True, ranked 20 False, ranked 5 False]"
    by (simp add: select_targets_def sort_reverse_def demo_config_def ranked_def)
qed

theorem target_selection_order_witness:
  "mode demo_config = ''priority'' \<and> prioritize_vips demo_config \<and>
   sorted_wrt (\<lambda>a c. is_vip a > is_vip c \<or> (is_vip a = is_vip c \<and> priority a \<ge> priority c))
     (select_targets demo_config [ranked 5 False, ranked 20 False, ranked 1 True]) \<and>
   hd (select_targets demo_config [ranked 5 False, ranked 20 False, ranked 1 True]) =
     ranked 1 True"
proof -
  have c: "mode demo_config = ''priority'' \<and> prioritize_vips demo_config"
    by (simp add: demo_config_def)
  have "sorted_wrt (\<lambda>a c. is_vip a > is_vip c \<or> (is_vip a = is_vip c \<and> priority a \<ge> priority c))
     (select_targets demo_config [ranked 5 False, ranked 20 False, ranked 1 True])"
    using c
      target_selection_order [where cfg = demo_config
        and xs = "[ranked 5 False, ranked 20 False, ranked 1 True]",
        THEN conjunct2, THEN conjunct2, THEN conjunct2, THEN conjunct1]
    by blast
  moreover have "hd (select_targets demo_config [ranked 5 False, ranked 20 False, ranked 1 True]) =
     ranked 1 True"
    by (simp add: select_targets_def sort_reverse_def demo_config_def ranked_def)
  ultimately show ?thesis using c by blast
qed

section \<open>Properties of the Relocation Protocol\<close>

lemmas move_defs = set_position_def teleport_to_def teleport_back_def encountered_def
  emit_event_def effect_def

lemma verify_target_position:
  "verify_target w st p = Inr (ex, p', st') \<Longrightarrow>
     position st' = position st \<and> alt st' = alt st \<and> (\<exists>es. trace st' = trace st @ es)"
  by (auto simp: verify_target_def Let_def effect_def split: option.splits sum.splits bool.splits)

text \<open>
  Claim C5. Whenever \<^verbatim>\<open>snipe\<close> returns, on the capture path as on the abort path, the
  trainer's latitude and longitude are those recorded before the relocation, the result is
  \<^verbatim>\<open>SUCCESS\<close>, the relocation to the target did take place, and the target's place is in
  the ledger. It returns for every target that comes from a feed: the only exception it can
  raise is the \<^verbatim>\<open>KeyError\<close> of line 285 on a dict without the key \<^verbatim>\<open>spawnpoint_id\<close>,
  which is read only when the push feed is not trusted.
\<close>

theorem snipe_restores_position:
  "(snipe cfg b w st p = Inr (r, st') \<longrightarrow>
      r = SUCCESS \<and>
      pos0 (position st') = pos0 (position st) \<and> pos1 (position st') = pos1 (position st) \<and>
      Set_position (fval (latitude p)) (fval (longitude p)) (alt st) True \<in> set (trace st') \<and>
      (\<exists>p'. is_inspected (caught st') p' \<and> latitude p' = latitude p \<and> longitude p' = longitude p)) \<and>
   (enable_social b \<or> spawnpoint_id p \<noteq> None \<longrightarrow> (\<exists>st'. snipe cfg b w st p = Inr (SUCCESS, st'))) \<and>
   (get_pokemon_from_url cfg b w0 st0 = Inr (out, st1) \<and> p \<in> set (select_targets cfg out) \<longrightarrow>
      (\<exists>st'. snipe cfg b w st p = Inr (SUCCESS, st')))"
proof -
  have returns: "\<exists>st'. snipe cfg b w st p = Inr (SUCCESS, st')"
    if a: "enable_social b \<or> spawnpoint_id p \<noteq> None" for p
  proof -
    define st1 where "st1 = effect (Sleep 2) (teleport_to p (effect Heartbeat st))"
    have "\<exists>ex p' st2.
      (if \<not> enable_social b then verify_target w st1 p else Inr (enable_social b, p, st1)) =
         Inr (ex, p', st2)"
      using a
      by (auto simp: verify_target_def ids_invalid_def Let_def split: option.splits bool.splits)
    then obtain ex p' st2 where v:
      "(if \<not> enable_social b then verify_target w st1 p else Inr (enable_social b, p, st1)) =
         Inr (ex, p', st2)" by blast
    show ?thesis
      using v unfolding snipe_def Let_def st1_def [symmetric]
      by (auto split: if_splits)
  qed
  have fed: "\<exists>st'. snipe cfg b w st p = Inr (SUCCESS, st')"
    if a: "get_pokemon_from_url cfg b w0 st0 = Inr (out, st1) \<and> p \<in> set (select_targets cfg out)"
  proof -
    have "p \<in> set out"
      using a select_targets_mset [of cfg out] by (metis mset_eq_setD)
    then have "spawnpoint_id p \<noteq> None"
      using a get_pokemon_from_url_mem url_item_SomeD by blast
    then show ?thesis using returns by blast
  qed
  have restored: "r = SUCCESS \<and>
      pos0 (position st') = pos0 (position st) \<and> pos1 (position st') = pos1 (position st) \<and>
      Set_position (fval (latitude p)) (fval (longitude p)) (alt st) True \<in> set (trace st') \<and>
      (\<exists>p'. is_inspected (caught st') p' \<and> latitude p' = latitude p \<and> longitude p' = longitude p)"
    if a: "snipe cfg b w st p = Inr (r, st')"
  proof (intro conjI)
    define st1 where "st1 = effect (Sleep 2) (teleport_to p (effect Heartbeat st))"
    have tr1: "Set_position (fval (latitude p)) (fval (longitude p)) (alt st) True \<in> set (trace st1)"
      and alt1: "alt st1 = alt st"
      by (simp_all add: st1_def move_defs)
    obtain ex p' st2 where v:
      "(if \<not> enable_social b then verify_target w st1 p else Inr (enable_social b, p, st1)) =
         Inr (ex, p', st2)"
      using a unfolding snipe_def Let_def st1_def by (auto split: sum.splits)
    have p': "latitude p' = latitude p \<and> longitude p' = longitude p"
      using v by (auto simp: verify_target_def Let_def split: if_splits option.splits sum.splits bool.splits)
    have st2: "\<exists>es. trace st2 = trace st1 @ es"
      using v verify_target_position [of w st1 p ex p' st2] by (auto split: if_splits)
    then have tr2: "Set_position (fval (latitude p)) (fval (longitude p)) (alt st) True \<in> set (trace st2)"
      using tr1 by auto
    have res: "r = SUCCESS \<and> position st' = (pos0 (position st), pos1 (position st), alt st2) \<and>
       Set_position (fval (latitude p)) (fval (longitude p)) (alt st) True \<in> set (trace st') \<and>
       caught st' = inspect (caught st2) p'"
      using a v tr2 unfolding snipe_def Let_def st1_def [symmetric]
      by (auto simp: move_defs split: if_splits)
    show "r = SUCCESS" using res by simp
    show "pos0 (position st') = pos0 (position st)" using res by (simp add: pos0_def)
    show "pos1 (position st') = pos1 (position st)" using res by (simp add: pos1_def)
    show "Set_position (fval (latitude p)) (fval (longitude p)) (alt st) True \<in> set (trace st')" using res by simp
    show "\<exists>p'. is_inspected (caught st') p' \<and> latitude p' = latitude p \<and> longitude p' = longitude p"
      using res p' is_inspected_inspect by auto
  qed
  show ?thesis using restored returns fed by blast
qed

lemma demo_task_fields:
  "caught demo_task = []" "min_ball demo_task = 1" "walker demo_task = ''StepWalker''"
  "snipe_high_prio_only demo_task = False" "snipe_high_prio_threshold demo_task = 400"
  "by_pass_times demo_task = 0"
  "pokemon_data demo_task = [''Bulbasaur'', ''Ivysaur'', ''Venusaur'']" "alt demo_task = 0"
  "position demo_task = (0, 0, 0)" "capture_locked demo_task = None"
  "mqtt_pokemon_list demo_task = None" "files demo_task = Map.empty" "trace demo_task = []"
  by (simp_all add: demo_task_def)

lemma url_bulbasaur_fields:
  "pokemon_id url_bulbasaur = 1" "latitude url_bulbasaur = Exact (1 / 4096)"
  "longitude url_bulbasaur = Exact 0" "encounter_id url_bulbasaur = Blank"
  "spawnpoint_id url_bulbasaur = Some Blank" "name url_bulbasaur = ''Bulbasaur''"
  "is_vip url_bulbasaur = False" "priority url_bulbasaur = 5" "dist url_bulbasaur = 3125 / 128"
  by (simp_all add: url_bulbasaur_def)

lemma found_bulbasaur_fields:
  "latitude found_bulbasaur = Exact (1 / 4096)" "longitude found_bulbasaur = Exact 0"
  "name found_bulbasaur = ''Bulbasaur''"
  by (simp_all add: found_bulbasaur_def url_bulbasaur_fields)

theorem snipe_restores_position_witness:
  "snipe demo_config demo_bot ((demo_world [])\<lparr>get_meta_cell := (\<lambda>lat lon. seen_cell)\<rparr>)
     (demo_task\<lparr>position := (1, 2, 3)\<rparr>) url_bulbasaur = Inr (SUCCESS, captured_task) \<and>
   snipe demo_config demo_bot (demo_world []) (demo_task\<lparr>position := (1, 2, 3)\<rparr>)
     url_bulbasaur = Inr (SUCCESS, aborted_task) \<and>
   spawnpoint_id url_bulbasaur \<noteq> None \<and>
   pos0 (position captured_task) = 1 \<and> pos1 (position captured_task) = 2 \<and>
   pos0 (position aborted_task) = 1 \<and> pos1 (position aborted_task) = 2"
proof -
  define st1 where "st1 = demo_task\<lparr>position := (1 / 4096, 0, 0),
      trace := [Heartbeat, Emit (Ev_teleport_to url_bulbasaur),
                Set_position (1 / 4096) 0 0 True, Sleep 2]\<rparr>"
  define st2 where "st2 = st1\<lparr>trace := trace st1 @ [Get_meta_cell, Sleep 2]\<rparr>"
  have tele: "effect (Sleep 2)
      (teleport_to url_bulbasaur (effect Heartbeat (demo_task\<lparr>position := (1, 2, 3)\<rparr>))) = st1"
    by (simp add: st1_def move_defs demo_task_fields url_bulbasaur_fields)
  have seen: "verify_target ((demo_world [])\<lparr>get_meta_cell := (\<lambda>lat lon. seen_cell)\<rparr>) st1
      url_bulbasaur = Inr (True, found_bulbasaur, st2)"
    by (simp add: verify_target_def ids_invalid_def Let_def effect_def get_or_def seen_cell_def
        st2_def url_bulbasaur_fields found_bulbasaur_def)
  have gone: "verify_target (demo_world []) st1 url_bulbasaur = Inr (False, url_bulbasaur, st2)"
    by (simp add: verify_target_def Let_def effect_def get_or_def demo_world_def st2_def)
  have st2_fields: "alt st2 = 0" "caught st2 = []"
    "trace st2 = [Heartbeat, Emit (Ev_teleport_to url_bulbasaur),
                  Set_position (1 / 4096) 0 0 True, Sleep 2, Get_meta_cell, Sleep 2]"
    by (simp_all add: st2_def st1_def demo_task_fields)
  have flags: "\<not> enable_social demo_bot" "snipe_sleep_sec demo_config = None"
    by (simp_all add: demo_bot_def demo_config_def)
  have capture: "snipe demo_config demo_bot
     ((demo_world [])\<lparr>get_meta_cell := (\<lambda>lat lon. seen_cell)\<rparr>)
     (demo_task\<lparr>position := (1, 2, 3)\<rparr>) url_bulbasaur = Inr (SUCCESS, captured_task)"
    unfolding snipe_def Let_def tele
    by (simp add: flags seen move_defs inspect_def st2_fields get_or_def pos0_def pos1_def
        found_bulbasaur_fields)
      (simp add: captured_task_def st2_def st1_def)
  have abort: "snipe demo_config demo_bot (demo_world []) (demo_task\<lparr>position := (1, 2, 3)\<rparr>)
     url_bulbasaur = Inr (SUCCESS, aborted_task)"
    unfolding snipe_def Let_def tele
    by (simp add: flags gone move_defs inspect_def st2_fields get_or_def pos0_def pos1_def
        url_bulbasaur_fields)
      (simp add: aborted_task_def st2_def st1_def)
  have sp: "spawnpoint_id url_bulbasaur \<noteq> None" by (simp add: url_bulbasaur_fields)
  have c: "pos0 (position captured_task) = 1 \<and> pos1 (position captured_task) = 2"
    using capture
      snipe_restores_position [where cfg = demo_config and b = demo_bot
        and w = "(demo_world [])\<lparr>get_meta_cell := (\<lambda>lat lon. seen_cell)\<rparr>"
        and st = "demo_task\<lparr>position := (1, 2, 3)\<rparr>" and p = url_bulbasaur and r = SUCCESS
        and st' = captured_task, THEN conjunct1]
    by (simp add: pos0_def pos1_def)
  have a: "pos0 (position aborted_task) = 1 \<and> pos1 (position aborted_task) = 2"
    using abort
      snipe_restores_position [where cfg = demo_config and b = demo_bot and w = "demo_world []"
        and st = "demo_task\<lparr>position := (1, 2, 3)\<rparr>" and p = url_bulbasaur and r = SUCCESS
        and st' = aborted_task, THEN conjunct1]
    by (simp add: pos0_def pos1_def)
  from capture abort sp c a show ?thesis by (intro conjI) simp_all
qed

section \<open>Properties of the tick\<close>

text \<open>
  Claim C9. When the pokeballs, great balls and ultra balls together are fewer than
  \<^verbatim>\<open>min_ball\<close>, \<^verbatim>\<open>work\<close> returns \<^verbatim>\<open>SUCCESS\<close> at once: the state is the one it started
  from, but for the debug line when debugging is on. So the push buffer is not drained, no
  GET is sent and the ledger file is not written.
\<close>

theorem not_enough_balls_no_feed:
  "item_count w POKEBALL_ID + item_count w GREATBALL_ID + item_count w ULTRABALL_ID < min_ball st
   \<longrightarrow>
     (\<exists>st'. work cfg b w st = Inr (Some SUCCESS, st') \<and>
        st' = st\<lparr>trace := trace st @
                 map Emit (debug_events cfg (Ev_log (Not_enough_balls (balls w) (min_ball st))))\<rparr> \<and>
        mqtt_pokemon_list st' = mqtt_pokemon_list st \<and> files st' = files st \<and>
        caught st' = caught st \<and>
        (\<forall>a. Http_get a \<in> set (trace st') \<longrightarrow> Http_get a \<in> set (trace st)))"
  by (auto simp: work_def balls_def debug_log_def debug_events_def emit_event_def effect_def)

theorem not_enough_balls_no_feed_witness:
  "item_count ((demo_world [url_at 1 0 0])\<lparr>item_count := (\<lambda>i. 0)\<rparr>) POKEBALL_ID
     + item_count ((demo_world [url_at 1 0 0])\<lparr>item_count := (\<lambda>i. 0)\<rparr>) GREATBALL_ID
     + item_count ((demo_world [url_at 1 0 0])\<lparr>item_count := (\<lambda>i. 0)\<rparr>) ULTRABALL_ID
     < min_ball demo_task \<and>
   work demo_config demo_bot ((demo_world [url_at 1 0 0])\<lparr>item_count := (\<lambda>i. 0)\<rparr>) demo_task =
     Inr (Some SUCCESS, demo_task)"
proof -
  have low: "item_count ((demo_world [url_at 1 0 0])\<lparr>item_count := (\<lambda>i. 0)\<rparr>) POKEBALL_ID
     + item_count ((demo_world [url_at 1 0 0])\<lparr>item_count := (\<lambda>i. 0)\<rparr>) GREATBALL_ID
     + item_count ((demo_world [url_at 1 0 0])\<lparr>item_count := (\<lambda>i. 0)\<rparr>) ULTRABALL_ID
     < min_ball demo_task"
    by (simp add: demo_defs)
  have "work demo_config demo_bot ((demo_world [url_at 1 0 0])\<lparr>item_count := (\<lambda>i. 0)\<rparr>) demo_task =
     Inr (Some SUCCESS, demo_task)"
    using low
      not_enough_balls_no_feed [where w = "(demo_world [url_at 1 0 0])\<lparr>item_count := (\<lambda>i. 0)\<rparr>"
        and st = demo_task and cfg = demo_config and b = demo_bot]
    by (auto simp: demo_defs debug_events_def get_or_def)
  with low show ?thesis by blast
qed

lemma fort_loop_Nil: "fort_loop cfg b st p i [] = []"
  by (simp add: fort_loop.simps)

lemma demo_fetch:
  "get_pokemon_from_url demo_config demo_bot (demo_world [url_at 1 (1 / 4096) 0]) dumped_task =
     Inr ([url_bulbasaur],
          dumped_task\<lparr>trace := [Http_get ''http://localhost:5000/raw_data'']\<rparr>)"
  by (simp add: demo_defs filter_defs url_bulbasaur_def dumped_task_def)

lemma demo_fetch_arriving:
  "get_pokemon_from_url demo_config demo_bot arriving_world dumped_task =
     Inr ([url_bulbasaur],
          dumped_task\<lparr>trace := [Http_get ''http://localhost:5000/raw_data'']\<rparr>)"
  by (simp add: demo_defs filter_defs url_bulbasaur_def dumped_task_def arriving_world_def)

lemma demo_dump: "dump_caught_pokemon demo_bot demo_task = dumped_task"
  by (simp add: dump_caught_pokemon_def demo_bot_def demo_task_def dumped_task_def)

lemma demo_select: "select_targets demo_config [url_bulbasaur] = [url_bulbasaur]"
  by (simp add: select_targets_def sort_reverse_def Let_def)

lemma demo_flags: "cfg_snipe demo_config = Some False" "debug demo_config = None"
  by (simp_all add: demo_config_def)

lemmas walk_defs = work_walk_def balls_def POKEBALL_ID_def GREATBALL_ID_def ULTRABALL_ID_def
  get_nearest_fort_on_the_way_def fort_loop_Nil move_to_def walker_step_def encountered_def
  emit_event_def effect_def inspect_def debug_log_def get_or_def Let_def

text \<open>
  Claim C3 says that in walking mode, with a VIP target or no fort on the way, an arrival
  reported by the walker (\<^verbatim>\<open>step()\<close> true) within the reachable distance ends in an
  encounter and \<^verbatim>\<open>SUCCESS\<close>, and everything else in \<^verbatim>\<open>RUNNING\<close>. The source tests
  \<^verbatim>\<open>if not step_walker.step()\<close> (line 394): when the walker reports arrival the function
  runs off its end and returns \<^verbatim>\<open>None\<close> with the capture lock held, nothing emitted and
  nothing recorded.
\<close>

theorem walking_arrival_counterexample:
  "work demo_config demo_bot arriving_world demo_task =
     Inr (None,
          dumped_task\<lparr>position := (1 / 4096, 0, 0), capture_locked := Some 1,
            trace := [Http_get ''http://localhost:5000/raw_data'',
                      Emit (Ev_move_towards url_bulbasaur),
                      Walker_step ''StepWalker'' (1 / 4096) 0]\<rparr>) \<and>
   walker_factory arriving_world ''StepWalker'' (1 / 4096) 0 =
     Some \<lparr>step = True, moved_to = (1 / 4096, 0, 0)\<rparr> \<and>
   dist url_bulbasaur < MAX_DISTANCE_POKEMON_IS_REACHABLE demo_bot \<and>
   get_nearest_fort_on_the_way demo_config demo_bot arriving_world
     (dumped_task\<lparr>trace := [Http_get ''http://localhost:5000/raw_data'']\<rparr>) url_bulbasaur = None"
proof -
  have r: "retrieve demo_config demo_bot arriving_world dumped_task =
     Inr (Some [url_bulbasaur],
          dumped_task\<lparr>trace := [Http_get ''http://localhost:5000/raw_data'']\<rparr>)"
    by (simp add: retrieve_def demo_fetch_arriving) (simp add: demo_bot_def)
  have b: "\<not> balls arriving_world < min_ball demo_task"
    by (simp add: balls_def arriving_world_def demo_world_def demo_task_def)
  have w: "work_walk demo_config demo_bot arriving_world
       (dumped_task\<lparr>trace := [Http_get ''http://localhost:5000/raw_data'']\<rparr>) url_bulbasaur =
     Inr (None,
          dumped_task\<lparr>position := (1 / 4096, 0, 0), capture_locked := Some 1,
            trace := [Http_get ''http://localhost:5000/raw_data'',
                      Emit (Ev_move_towards url_bulbasaur),
                      Walker_step ''StepWalker'' (1 / 4096) 0]\<rparr>)"
    by (simp add: walk_defs arriving_world_def demo_world_def dumped_task_def demo_task_def
        url_bulbasaur_def demo_bot_def)
  have "work demo_config demo_bot arriving_world demo_task =
     Inr (None,
          dumped_task\<lparr>position := (1 / 4096, 0, 0), capture_locked := Some 1,
            trace := [Http_get ''http://localhost:5000/raw_data'',
                      Emit (Ev_move_towards url_bulbasaur),
                      Walker_step ''StepWalker'' (1 / 4096) 0]\<rparr>)"
    using b by (simp add: work_def demo_dump r demo_select w index_key_def debug_log_def
        get_or_def demo_flags)
  moreover have "walker_factory arriving_world ''StepWalker'' (1 / 4096) 0 =
     Some \<lparr>step = True, moved_to = (1 / 4096, 0, 0)\<rparr>"
    by (simp add: arriving_world_def)
  moreover have "dist url_bulbasaur < MAX_DISTANCE_POKEMON_IS_REACHABLE demo_bot"
    by (simp add: url_bulbasaur_def demo_bot_def)
  moreover have "get_nearest_fort_on_the_way demo_config demo_bot arriving_world
     (dumped_task\<lparr>trace := [Http_get ''http://localhost:5000/raw_data'']\<rparr>) url_bulbasaur = None"
    by (simp add: get_nearest_fort_on_the_way_def fort_loop_Nil arriving_world_def demo_world_def)
  ultimately show ?thesis by (intro conjI)
qed

text \<open>
  Claim C3 as amended. In walking mode, with a VIP target or no fort on the way, when the
  walker's \<^verbatim>\<open>step()\<close> returns false: if the target's distance, as the filter computed it, is
  below the reachable threshold, \<^verbatim>\<open>work\<close> emits the encounter event, releases the capture
  lock, records the target in the ledger and returns \<^verbatim>\<open>SUCCESS\<close>; if it is not below the
  threshold, \<^verbatim>\<open>work\<close> returns \<^verbatim>\<open>RUNNING\<close> with the lock on the target's species.
\<close>

theorem walking_encounter:
  assumes "\<not> balls w < min_ball st"
    and "retrieve cfg b w (dump_caught_pokemon b st) = Inr (Some fetched, st1)"
    and "select_targets cfg fetched \<noteq> []"
    and "p = hd (select_targets cfg fetched)"
    and "st2 = debug_log cfg (How_many (length (select_targets cfg fetched))) st1"
    and "cfg_snipe cfg = Some False"
    and "is_vip p \<or> get_nearest_fort_on_the_way cfg b w st2 p = None"
    and "walker_factory w (walker st2) (fval (latitude p)) (fval (longitude p)) = Some wk"
    and "\<not> step wk"
  shows "(dist p < MAX_DISTANCE_POKEMON_IS_REACHABLE b \<longrightarrow>
           (\<exists>st'. work cfg b w st = Inr (Some SUCCESS, st') \<and>
                  Emit (Ev_encounter p) \<in> set (trace st') \<and>
                  capture_locked st' = None \<and>
                  caught st' = inspect (caught st2) p \<and> is_inspected (caught st') p)) \<and>
         (\<not> dist p < MAX_DISTANCE_POKEMON_IS_REACHABLE b \<longrightarrow>
           (\<exists>st'. work cfg b w st = Inr (Some RUNNING, st') \<and>
                  capture_locked st' = Some (pokemon_id p) \<and> caught st' = caught st2))"
proof -
  have bal: "\<not> balls w < min_ball st2"
  proof -
    have "min_ball st1 = min_ball st"
      using assms(2)
      by (auto simp: retrieve_def dump_caught_pokemon_def get_pokemon_from_social_def
          get_pokemon_from_url_def debug_log_def emit_event_def effect_def Let_def
          split: if_splits sum.splits option.splits http_reply.splits)
    then show ?thesis using assms(1,5) by (simp add: debug_log_def emit_event_def effect_def)
  qed
  have w: "work cfg b w st = work_walk cfg b w st2 p"
    using assms(1-6) by (simp add: work_def index_key_def Let_def)
  show ?thesis
    unfolding w using bal assms(7-9)
    by (auto simp: work_walk_def move_to_def walker_step_def encountered_def emit_event_def
        effect_def Let_def is_inspected_inspect)
qed


theorem walking_encounter_witness:
  "work demo_config demo_bot (demo_world [url_at 1 (1 / 4096) 0]) demo_task =
     Inr (Some SUCCESS, encountered_task) \<and>
   walker_factory (demo_world [url_at 1 (1 / 4096) 0]) ''StepWalker'' (1 / 4096) 0 =
     Some \<lparr>step = False, moved_to = (1 / 4096, 0, 0)\<rparr> \<and>
   dist url_bulbasaur < MAX_DISTANCE_POKEMON_IS_REACHABLE demo_bot \<and>
   Emit (Ev_encounter url_bulbasaur) \<in> set (trace encountered_task) \<and>
   capture_locked encountered_task = None \<and>
   is_inspected (caught encountered_task) url_bulbasaur"
proof -
  define w where "w = demo_world [url_at 1 (1 / 4096) 0]"
  define st1 where "st1 = dumped_task\<lparr>trace := [Http_get ''http://localhost:5000/raw_data'']\<rparr>"
  have a1: "\<not> balls w < min_ball demo_task"
    by (simp add: balls_def w_def demo_world_def demo_task_def)
  have a2: "retrieve demo_config demo_bot w (dump_caught_pokemon demo_bot demo_task) =
      Inr (Some [url_bulbasaur], st1)"
    unfolding w_def st1_def demo_dump by (simp add: retrieve_def demo_fetch) (simp add: demo_bot_def)
  have a3: "select_targets demo_config [url_bulbasaur] \<noteq> []" by (simp add: demo_select)
  have a4: "url_bulbasaur = hd (select_targets demo_config [url_bulbasaur])"
    by (simp add: demo_select)
  have a5: "st1 = debug_log demo_config
      (How_many (length (select_targets demo_config [url_bulbasaur]))) st1"
    by (simp add: debug_log_def get_or_def demo_flags)
  have a6: "cfg_snipe demo_config = Some False" by (rule demo_flags)
  have a7: "is_vip url_bulbasaur \<or>
      get_nearest_fort_on_the_way demo_config demo_bot w st1 url_bulbasaur = None"
    by (simp add: get_nearest_fort_on_the_way_def fort_loop_Nil w_def demo_world_def)
  have a8: "walker_factory w (walker st1) (fval (latitude url_bulbasaur)) (fval (longitude url_bulbasaur)) =
      Some \<lparr>step = False, moved_to = (1 / 4096, 0, 0)\<rparr>"
    by (simp add: w_def st1_def demo_world_def dumped_task_def demo_task_def url_bulbasaur_def)
  have a9: "\<not> step \<lparr>step = False, moved_to = (1 / 4096, 0, 0)\<rparr>" by simp
  have near: "dist url_bulbasaur < MAX_DISTANCE_POKEMON_IS_REACHABLE demo_bot"
    by (simp add: url_bulbasaur_def demo_bot_def)
  have run: "work demo_config demo_bot w demo_task = Inr (Some SUCCESS, encountered_task)"
  proof -
    have "work_walk demo_config demo_bot w st1 url_bulbasaur =
        Inr (Some SUCCESS, encountered_task)"
      by (simp add: walk_defs w_def st1_def demo_world_def dumped_task_def demo_task_def
          url_bulbasaur_def demo_bot_def encountered_task_def)
    then show ?thesis
      using a1 by (simp add: work_def a2 demo_select index_key_def debug_log_def get_or_def
          demo_flags)
  qed
  have "\<exists>st'. work demo_config demo_bot w demo_task = Inr (Some SUCCESS, st') \<and>
      Emit (Ev_encounter url_bulbasaur) \<in> set (trace st') \<and> capture_locked st' = None \<and>
      caught st' = inspect (caught st1) url_bulbasaur \<and> is_inspected (caught st') url_bulbasaur"
    using walking_encounter [OF a1 a2 a3 a4 a5 a6 a7 a8 a9, THEN conjunct1] near by blast
  then have props: "Emit (Ev_encounter url_bulbasaur) \<in> set (trace encountered_task) \<and>
      capture_locked encountered_task = None \<and>
      is_inspected (caught encountered_task) url_bulbasaur"
    using run by auto
  have wf: "walker_factory (demo_world [url_at 1 (1 / 4096) 0]) ''StepWalker'' (1 / 4096) 0 =
     Some \<lparr>step = False, moved_to = (1 / 4096, 0, 0)\<rparr>"
    by (simp add: demo_world_def)
  show ?thesis using run props wf near unfolding w_def by (intro conjI) simp_all
qed

end
